theory Spec2Isabelle
  imports Complex_Main
begin

section \<open>Python values shared by the modules\<close>

text \<open>
  Python strings are modelled as \<^typ>\<open>string\<close>: a list of characters, each one code
  point. The text the modules handle (keywords, labels, file names) is ASCII;
  \<open>str.lower\<close> is modelled on ASCII, where it changes exactly the letters A to Z.
  Python integers are unbounded and modelled as \<^typ>\<open>int\<close>.
  Exceptions are values: a function that can raise returns \<open>py_exception + 'a\<close>.
\<close>

datatype py_exception =
    ValueError
  | SyntaxError
  | KeyError
  | TypeError
  | IndexError
  | RecursionError
  | MemoryError
  | Timeout
  | OSError

definition ascii_uppercase :: string where
  "ascii_uppercase = ''ABCDEFGHIJKLMNOPQRSTUVWXYZ''"

definition ascii_lowercase :: string where
  "ascii_lowercase = ''abcdefghijklmnopqrstuvwxyz''"

definition lower_char :: "char \<Rightarrow> char" where
  "lower_char c =
     (case map_of (zip ascii_uppercase ascii_lowercase) c of Some d \<Rightarrow> d | None \<Rightarrow> c)"

definition lower :: "string \<Rightarrow> string" where
  "lower s = map lower_char s"

text \<open>\<open>s.startswith(p)\<close> and the substring test \<open>sub in s\<close>.\<close>

fun startswith :: "string \<Rightarrow> string \<Rightarrow> bool" where
  "startswith s [] = True"
| "startswith [] (p # ps) = False"
| "startswith (c # cs) (p # ps) = (c = p \<and> startswith cs ps)"

fun contains :: "string \<Rightarrow> string \<Rightarrow> bool" where
  "contains [] sub = (sub = [])"
| "contains (c # cs) sub = (startswith (c # cs) sub \<or> contains cs sub)"

lemmas str_eval = lower_def lower_char_def ascii_uppercase_def ascii_lowercase_def


section \<open>services/priority\_scorer.py\<close>

text \<open>
  The class constants \<open>SEVERITY_SCORES\<close>, \<open>IMPACT_SCORES\<close>, \<open>EFFORT_PENALTY\<close> are
  dictionaries from strings to integers, \<open>THRESHOLDS\<close> a dictionary read at three fixed
  keys. The four label strings the function returns start with an emoji; they are
  modelled as the constructors of \<open>priority_label\<close>:
  \<open>STOP_SHIP\<close> is the label \<open>STOP-SHIP\<close>, \<open>HIGH\<close> is \<open>HIGH\<close>, \<open>MEDIUM\<close> is \<open>MEDIUM\<close>
  and \<open>LOW\<close> is \<open>LOW\<close>.
\<close>

definition SEVERITY_SCORES :: "string \<rightharpoonup> int" where
  "SEVERITY_SCORES = [''critical'' \<mapsto> 40, ''high'' \<mapsto> 30, ''medium'' \<mapsto> 20, ''low'' \<mapsto> 10]"

definition IMPACT_SCORES :: "string \<rightharpoonup> int" where
  "IMPACT_SCORES = [''high'' \<mapsto> 40, ''medium'' \<mapsto> 25, ''low'' \<mapsto> 10]"

definition EFFORT_PENALTY :: "string \<rightharpoonup> int" where
  "EFFORT_PENALTY = [''low'' \<mapsto> 0, ''medium'' \<mapsto> - 10, ''high'' \<mapsto> - 20]"

definition THRESHOLD_stop_ship :: int where "THRESHOLD_stop_ship = 85"
definition THRESHOLD_high :: int where "THRESHOLD_high = 65"
definition THRESHOLD_medium :: int where "THRESHOLD_medium = 50"

datatype priority_label = STOP_SHIP | HIGH | MEDIUM | LOW

definition score_issue :: "string \<Rightarrow> string \<Rightarrow> string \<Rightarrow> py_exception + (int \<times> priority_label)" where
  "score_issue severity impact effort =
     (let severity = lower severity; impact = lower impact; effort = lower effort in
      case SEVERITY_SCORES severity of
        None \<Rightarrow> Inl ValueError
      | Some sev \<Rightarrow>
         (case IMPACT_SCORES impact of
            None \<Rightarrow> Inl ValueError
          | Some imp \<Rightarrow>
             (case EFFORT_PENALTY effort of
                None \<Rightarrow> Inl ValueError
              | Some pen \<Rightarrow>
                 (let score = sev + imp + pen;
                      label = (if score \<ge> THRESHOLD_stop_ship then STOP_SHIP
                               else if score \<ge> THRESHOLD_high then HIGH
                               else if score \<ge> THRESHOLD_medium then MEDIUM
                               else LOW)
                  in Inr (score, label)))))"

text \<open>The spec's words for the same function: the sum clamped to 0..100, the label by bands.\<close>

definition clamp :: "int \<Rightarrow> int \<Rightarrow> int \<Rightarrow> int" where
  "clamp lo hi x = max lo (min hi x)"

definition label_by_bands :: "int \<Rightarrow> priority_label" where
  "label_by_bands s =
     (if s \<ge> 85 then STOP_SHIP else if s \<ge> 65 then HIGH else if s \<ge> 50 then MEDIUM else LOW)"

lemmas scorer_eval = score_issue_def SEVERITY_SCORES_def IMPACT_SCORES_def EFFORT_PENALTY_def
  THRESHOLD_stop_ship_def THRESHOLD_high_def THRESHOLD_medium_def


section \<open>enforcement\_gate.py: the complexity heuristic\<close>

definition architectural_keywords :: "string list" where
  "architectural_keywords =
     [''refactor'', ''redesign'', ''migrate'', ''architecture'', ''authentication'',
      ''authorization'', ''security'', ''database'', ''api'', ''schema'', ''jwt'', ''token'',
      ''caching'', ''cache'', ''workflow'', ''approval'', ''integration'', ''service'',
      ''infrastructure'', ''deployment'']"

definition scope_keywords :: "string list" where
  "scope_keywords =
     [''system-wide'', ''all'', ''entire'', ''multiple'', ''cross-cutting'', ''implement'',
      ''new feature'', ''add new'']"

definition simple_keywords :: "string list" where
  "simple_keywords = [''typo'', ''fix'', ''comment'', ''documentation'', ''readme'']"

text \<open>\<open>sum(1 for kw in keywords if kw in request_lower)\<close>\<close>

definition count_matches :: "string list \<Rightarrow> string \<Rightarrow> int" where
  "count_matches keywords request_lower = int (length (filter (contains request_lower) keywords))"

definition calculate_placeholder_complexity :: "string \<Rightarrow> string list \<Rightarrow> int" where
  "calculate_placeholder_complexity request file_paths =
     (let score = 0;
          file_count = length file_paths;
          score = (if file_count = 0 then score + 5
                   else if file_count = 1 then score + 10
                   else if file_count \<le> 3 then score + 15
                   else score + 20);
          request_lower = lower request;
          keyword_matches = count_matches architectural_keywords request_lower;
          score = score + min (keyword_matches * 12) 50;
          scope_matches = count_matches scope_keywords request_lower;
          score = score + min (scope_matches * 12) 25;
          score = (if contains request_lower ''add ''
                   then (if list_ex (contains request_lower) architectural_keywords
                         then score + 5 else score)
                   else score);
          simple_matches = count_matches simple_keywords request_lower;
          score = (if simple_matches > 0 then max 0 (score - 30) else score)
      in min score 100)"

text \<open>
  \<open>check_debate_required\<close> reads the configuration (\<open>load_config\<close>); the two fields it
  uses are parameters of the model. The \<open>reason\<close> string is left out of the result.
\<close>

record debate_required =
  required :: bool
  complexity_score :: int

definition check_debate_required :: "bool \<Rightarrow> int \<Rightarrow> string \<Rightarrow> string list option \<Rightarrow> debate_required" where
  "check_debate_required enabled complexity_threshold request file_paths =
     (if \<not> enabled then \<lparr>required = False, complexity_score = 0\<rparr>
      else let score = calculate_placeholder_complexity request
                         (case file_paths of None \<Rightarrow> [] | Some fs \<Rightarrow> fs)
           in \<lparr>required = (score \<ge> complexity_threshold), complexity_score = score\<rparr>)"

text \<open>
  The spec's words for the heuristic: the file-count contribution, 12 per architectural
  keyword capped at 50, 12 per scope keyword capped at 25, 5 once when \<open>add\<close> followed by
  a space occurs together with an architectural keyword, minus 30 when a simple-change
  keyword occurs, the whole clamped to 0..100.
\<close>

definition file_count_contribution :: "nat \<Rightarrow> int" where
  "file_count_contribution n = (if n = 0 then 5 else if n = 1 then 10 else if n \<le> 3 then 15 else 20)"

definition complexity_formula :: "string \<Rightarrow> string list \<Rightarrow> int" where
  "complexity_formula request file_paths =
     (let r = lower request;
          arch = count_matches architectural_keywords r;
          scope = count_matches scope_keywords r;
          simple = count_matches simple_keywords r
      in clamp 0 100
           (file_count_contribution (length file_paths)
            + min (12 * arch) 50
            + min (12 * scope) 25
            + (if contains r ''add '' \<and> arch > 0 then 5 else 0)
            - (if simple > 0 then 30 else 0)))"

lemmas gate_eval = calculate_placeholder_complexity_def count_matches_def
  architectural_keywords_def scope_keywords_def simple_keywords_def


section \<open>services/fast\_moderator.py\<close>

text \<open>
  The two analysis results are dictionaries read with \<open>.get\<close> and a default, so a key
  may be missing: the fields of \<open>analysis\<close> are options. A pattern issue is read only
  at its key \<open>priority_score\<close>. The field \<open>analysis_time\<close> of the result is a clock
  reading and is left out; the key \<open>interpretation\<close> is the field \<open>interpretation_str\<close>
  (the plain name is a keyword of Isabelle).
\<close>

record analysis =
  score :: "int option"
  response :: "string option"

record pattern_issue =
  priority_score :: "int option"

record moderation =
  consensus_score :: int
  interpretation_str :: string
  recommendation :: string
  score_difference :: int
  disagreements :: "(string \<times> string) list"
  agreements :: "string list"

definition STRONG_AGREEMENT_THRESHOLD :: int where "STRONG_AGREEMENT_THRESHOLD = 10"
definition MODERATE_AGREEMENT_THRESHOLD :: int where "MODERATE_AGREEMENT_THRESHOLD = 20"
definition PROCEED_CONFIDENTLY :: int where "PROCEED_CONFIDENTLY = 85"
definition PROCEED_WITH_CAUTION :: int where "PROCEED_WITH_CAUTION = 70"
definition DISCUSS_FIRST :: int where "DISCUSS_FIRST = 50"

definition DISAGREEMENT_KEYWORDS :: "string list" where
  "DISAGREEMENT_KEYWORDS =
     [''disagree'', ''disagrees'', ''disagreement'',
      ''concern'', ''concerns'', ''concerned'',
      ''risk'', ''risks'', ''risky'',
      ''issue'', ''issues'', ''problem'', ''problems'',
      ''wrong'', ''incorrect'', ''mistake'',
      ''missing'', ''lacks'', ''incomplete'',
      ''alternative'', ''instead'', ''better approach'']"

definition agreement_keywords :: "string list" where
  "agreement_keywords =
     [''agree'', ''agrees'', ''correct'', ''good'', ''excellent'',
      ''well-designed'', ''appropriate'', ''smart'', ''effective'']"

text \<open>\<open>str.strip()\<close>: the ASCII whitespace characters are removed at both ends.\<close>

definition isspace :: "char \<Rightarrow> bool" where
  "isspace c = (c \<in> set [CHR '' '', CHR 0x09, CHR 0x0A, CHR 0x0B, CHR 0x0C, CHR 0x0D,
                            CHR 0x1C, CHR 0x1D, CHR 0x1E, CHR 0x1F])"

definition strip :: "string \<Rightarrow> string" where
  "strip s = rev (dropWhile isspace (rev (dropWhile isspace s)))"

text \<open>
  \<open>re.split(r'[.!?]+', text)\<close>: the text is cut at every maximal run of the three
  characters; the pieces before the first run and after the last one are kept, empty
  or not. \<open>cur\<close> is the piece being read (reversed), \<open>in_sep\<close> says that the previous
  character belonged to a run.
\<close>

fun re_split :: "string \<Rightarrow> bool \<Rightarrow> string \<Rightarrow> string list" where
  "re_split cur in_sep [] = [rev cur]"
| "re_split cur in_sep (c # cs) =
     (if c \<in> set ''.!?''
      then (if in_sep then re_split cur True cs else rev cur # re_split [] True cs)
      else re_split (c # cur) False cs)"

definition split_sentences :: "string \<Rightarrow> string list" where
  "split_sentences text = map strip (filter (\<lambda>s. strip s \<noteq> []) (re_split [] False text))"

definition contains_disagreement_keyword :: "string \<Rightarrow> bool" where
  "contains_disagreement_keyword sentence =
     (let sentence_lower = lower sentence
      in list_ex (\<lambda>kw. contains sentence_lower kw) DISAGREEMENT_KEYWORDS)"

definition determine_agreement_level :: "int \<Rightarrow> string" where
  "determine_agreement_level difference =
     (if difference \<le> STRONG_AGREEMENT_THRESHOLD then ''Strong Agreement''
      else if difference \<le> MODERATE_AGREEMENT_THRESHOLD then ''Moderate Agreement''
      else ''Significant Disagreements'')"

definition generate_recommendation :: "int \<Rightarrow> int \<Rightarrow> pattern_issue list option \<Rightarrow> string" where
  "generate_recommendation consensus difference pattern_issues =
     (if (case pattern_issues of
            None \<Rightarrow> False
          | Some issues \<Rightarrow> issues \<noteq> [] \<and>
              filter (\<lambda>i. (case priority_score i of None \<Rightarrow> 0 | Some p \<Rightarrow> p) \<ge> 85) issues \<noteq> [])
      then ''[STOP-SHIP] Critical issues found''
      else if consensus \<ge> PROCEED_CONFIDENTLY then
        (if difference \<le> STRONG_AGREEMENT_THRESHOLD
         then ''[PROCEED CONFIDENTLY] Strong consensus''
         else ''[PROCEED] Good consensus with minor concerns'')
      else if consensus \<ge> PROCEED_WITH_CAUTION then ''[CAUTION] Address key concerns first''
      else if consensus \<ge> DISCUSS_FIRST
        then ''[DISCUSS FIRST] Resolve disagreements before proceeding''
      else ''[RECONSIDER] Fundamental disagreements require rethinking'')"

definition extract_disagreements :: "string \<Rightarrow> string \<Rightarrow> (string \<times> string) list" where
  "extract_disagreements claude_text codex_text =
     (let claude_sentences = split_sentences claude_text;
          codex_sentences = split_sentences codex_text;
          found = map (\<lambda>s. (''Claude'', strip s))
                    (filter contains_disagreement_keyword claude_sentences);
          found = found @ map (\<lambda>s. (''Codex'', strip s))
                    (filter contains_disagreement_keyword codex_sentences)
      in take 5 found)"

definition extract_agreements :: "string \<Rightarrow> string \<Rightarrow> string list" where
  "extract_agreements claude_text codex_text =
     (let claude_sentences = split_sentences claude_text;
          codex_sentences = split_sentences codex_text;
          has_keyword = (\<lambda>s. list_ex (\<lambda>kw. contains (lower s) kw) agreement_keywords);
          found = map strip (filter has_keyword claude_sentences);
          found = fold (\<lambda>s acc. if has_keyword s \<and> strip s \<notin> set acc
                                   then acc @ [strip s] else acc)
                    codex_sentences found
      in take 5 found)"

definition analyze :: "analysis \<Rightarrow> analysis \<Rightarrow> pattern_issue list option \<Rightarrow> moderation" where
  "analyze claude_result codex_result pattern_issues =
     (let claude_score = (case score claude_result of None \<Rightarrow> 70 | Some s \<Rightarrow> s);
          codex_score = (case score codex_result of None \<Rightarrow> 70 | Some s \<Rightarrow> s);
          consensus = (claude_score + codex_score) div 2;
          difference = \<bar>claude_score - codex_score\<bar>;
          claude_text = (case response claude_result of None \<Rightarrow> [] | Some t \<Rightarrow> t);
          codex_text = (case response codex_result of None \<Rightarrow> [] | Some t \<Rightarrow> t)
      in \<lparr>consensus_score = consensus,
          interpretation_str = determine_agreement_level difference,
          recommendation = generate_recommendation consensus difference pattern_issues,
          score_difference = difference,
          disagreements = extract_disagreements claude_text codex_text,
          agreements = extract_agreements claude_text codex_text\<rparr>)"


section \<open>file\_protocol.py\<close>

text \<open>
  A session directory holds \<open>session_metadata.json\<close>, the counter file \<open>.sequence\<close> and
  the proposal files of the participants. The metadata is a JSON object; the values read
  by the modules are \<open>null\<close>, booleans, integers and strings.
\<close>

datatype json = JNull | JBool bool | JInt int | JStr string


text \<open>
  What \<open>json.loads\<close> makes of the metadata file: nothing when the file is missing, an
  exception when its text is not JSON, a dictionary, or a JSON value that is not a
  dictionary.
\<close>

datatype parsed_json = Dict "string \<rightharpoonup> json" | NotADict

datatype metadata_file = NoFile | Unparseable | Parsed parsed_json

text \<open>
  \<open>sequence_file\<close> is the integer that \<open>int(seq_file.read_text().strip())\<close> yields, and
  \<open>None\<close> when the file is missing or its text is not an integer. \<open>proposal_files\<close>
  lists the files under the participants' directories: the directory name and the file
  name, with the file's text.
\<close>

record session_dir =
  metadata_file :: metadata_file
  sequence_file :: "int option"
  proposal_files :: "((string \<times> string) \<times> string) list"

text \<open>\<open>str(n)\<close> for an integer, and the format \<open>{n:03d}\<close>.\<close>

fun digits :: "nat \<Rightarrow> string" where
  "digits n = (if n < 10 then [''0123456789'' ! n]
               else digits (n div 10) @ [''0123456789'' ! (n mod 10)])"

declare digits.simps [simp del]

definition str_int :: "int \<Rightarrow> string" where
  "str_int n = (if n < 0 then ''-'' @ digits (nat (- n)) else digits (nat n))"

definition zfill :: "nat \<Rightarrow> string \<Rightarrow> string" where
  "zfill width s = replicate (width - length s) CHR ''0'' @ s"

definition format_03d :: "int \<Rightarrow> string" where
  "format_03d n = (if n < 0 then ''-'' @ zfill 2 (digits (nat (- n))) else zfill 3 (digits (nat n)))"

text \<open>
  What the environment does during one call: the two \<open>FileLock\<close>s can time out and
  \<open>write_text\<close> can fail; each raises an exception.
\<close>

datatype io = IO_ok | Seq_lock_timeout | File_lock_timeout | Write_failed

definition get_next_sequence :: "session_dir \<Rightarrow> bool \<Rightarrow> py_exception + (session_dir \<times> int)" where
  "get_next_sequence d lock_acquired =
     (if \<not> lock_acquired then Inl Timeout
      else let current = (case sequence_file d of None \<Rightarrow> 0 | Some n \<Rightarrow> n);
               next_seq = current + 1
           in Inr (d\<lparr>sequence_file := Some next_seq\<rparr>, next_seq))"

text \<open>\<open>path.write_text(content)\<close>: the file is created, or its text replaced.\<close>

fun write_text :: "'k \<Rightarrow> 'v \<Rightarrow> ('k \<times> 'v) list \<Rightarrow> ('k \<times> 'v) list" where
  "write_text k v [] = [(k, v)]"
| "write_text k v (f # fs) = (if fst f = k then (k, v) # fs else f # write_text k v fs)"

record write_result =
  w_success :: bool
  w_file_path :: string
  w_sequence :: int
  w_error :: "string option"

definition write_proposal ::
  "session_dir \<Rightarrow> string \<Rightarrow> int \<Rightarrow> string \<Rightarrow> io \<Rightarrow> session_dir \<times> write_result" where
  "write_proposal d ai_name round_num content env =
     (if ai_name \<notin> {''claude'', ''codex''}
      then (d, \<lparr>w_success = False, w_file_path = [], w_sequence = 0,
                 w_error = Some ''Invalid ai_name''\<rparr>)
      else case get_next_sequence d (env \<noteq> Seq_lock_timeout) of
        Inl e \<Rightarrow> (d, \<lparr>w_success = False, w_file_path = [], w_sequence = 0,
                        w_error = Some ''Failed to write proposal''\<rparr>)
      | Inr (d, sequence) \<Rightarrow>
         (let filename = ''round_'' @ str_int round_num @ ''_seq_'' @ format_03d sequence @ ''.md''
          in if env = File_lock_timeout \<or> env = Write_failed
             then (d, \<lparr>w_success = False, w_file_path = [], w_sequence = 0,
                        w_error = Some ''Failed to write proposal''\<rparr>)
             else (d\<lparr>proposal_files := write_text (ai_name, filename) content (proposal_files d)\<rparr>,
                   \<lparr>w_success = True, w_file_path = ai_name @ ''/'' @ filename,
                    w_sequence = sequence, w_error = None\<rparr>)))"

text \<open>
  \<open>ai_dir.glob(f"round_{round_num}_seq_*.md")\<close>: the names of the directory that start
  with the text before the star and end with \<open>.md\<close> after it. \<open>sorted\<close> orders the
  paths of one directory by their names, character by character.
\<close>

definition glob_match :: "int \<Rightarrow> string \<Rightarrow> bool" where
  "glob_match round_num name =
     (let prefix = ''round_'' @ str_int round_num @ ''_seq_''
      in startswith name prefix \<and> startswith (rev (drop (length prefix) name)) (rev ''.md''))"

fun str_le :: "string \<Rightarrow> string \<Rightarrow> bool" where
  "str_le [] ys = True"
| "str_le (x # xs) [] = False"
| "str_le (x # xs) (y # ys) = (if x = y then str_le xs ys else (of_char x :: nat) < of_char y)"

fun insort_path :: "string \<times> 'a \<Rightarrow> (string \<times> 'a) list \<Rightarrow> (string \<times> 'a) list" where
  "insort_path p [] = [p]"
| "insort_path p (q # qs) = (if str_le (fst p) (fst q) then p # q # qs else q # insort_path p qs)"

definition sorted_paths :: "(string \<times> 'a) list \<Rightarrow> (string \<times> 'a) list" where
  "sorted_paths ps = foldr insort_path ps []"

record read_result =
  r_success :: bool
  r_content :: string
  r_file_path :: string
  r_error :: "string option"

definition read_proposal :: "session_dir \<Rightarrow> string \<Rightarrow> int \<Rightarrow> read_result" where
  "read_proposal d ai_name round_num =
     (if ai_name \<notin> {''claude'', ''codex''}
      then \<lparr>r_success = False, r_content = [], r_file_path = [], r_error = Some ''Invalid ai_name''\<rparr>
      else let in_dir = map (\<lambda>f. (snd (fst f), snd f))
                          (filter (\<lambda>f. fst (fst f) = ai_name) (proposal_files d));
               matching_files = sorted_paths (filter (\<lambda>f. glob_match round_num (fst f)) in_dir)
           in if matching_files = []
              then \<lparr>r_success = False, r_content = [], r_file_path = [],
                     r_error = Some ''No proposal found''\<rparr>
              else let latest_file = last matching_files
                   in \<lparr>r_success = True, r_content = snd latest_file,
                       r_file_path = ai_name @ ''/'' @ fst latest_file, r_error = None\<rparr>)"



text \<open>
  The directory \<open>create_session_directory\<close> leaves behind: the counter at 0, no
  proposals, and the initial metadata.
\<close>

definition new_session :: "string \<Rightarrow> string \<Rightarrow> session_dir" where
  "new_session session_id now =
     \<lparr>metadata_file = Parsed (Dict [''session_id'' \<mapsto> JStr session_id,
                                      ''created_at'' \<mapsto> JStr now,
                                      ''updated_at'' \<mapsto> JStr now,
                                      ''state'' \<mapsto> JStr ''IDLE'',
                                      ''current_round'' \<mapsto> JInt 0]),
      sequence_file = Some 0,
      proposal_files = []\<rparr>"


section \<open>enforcement\_gate.py: the execution gate\<close>







text \<open>A run of \<open>n\<close> proposals written by codex for round 1, each call succeeding.\<close>

fun codex_writes :: "nat \<Rightarrow> session_dir \<Rightarrow> session_dir" where
  "codex_writes 0 d = d"
| "codex_writes (Suc n) d = fst (write_proposal (codex_writes n d) ''codex'' 1 ''draft'' IO_ok)"



section \<open>services/debate\_cache.py\<close>

text \<open>
  The cache directory maps a file name (the cache key) to a file: its modification time
  and what \<open>json.load\<close> makes of its text, an entry or a corrupted file. Times are
  integers in one unit (seconds); \<open>ttl\<close> is in the same unit. The cached response is a
  dictionary whose content plays no role, hence the type parameter. The entry's field
  \<open>cached_at\<close> is never read and is left out. \<open>hashlib.md5(...).hexdigest()[:16]\<close> is a
  parameter of the model (\<open>md5_16\<close>).
\<close>

record 'r cache_entry =
  cached_file_hash :: "string option"
  cached_response :: 'r

datatype 'r cache_content = Corrupted | Entry "'r cache_entry"

record 'r cache_file =
  mtime :: int
  file_data :: "'r cache_content"

record 'r debate_cache =
  cache_dir :: "string \<rightharpoonup> 'r cache_file"
  ttl :: int

text \<open>The truth value of an optional string (\<open>if file_hash:\<close>).\<close>

definition nonempty_hash :: "string option \<Rightarrow> bool" where
  "nonempty_hash file_hash = (case file_hash of None \<Rightarrow> False | Some h \<Rightarrow> h \<noteq> [])"

definition generate_cache_key :: "(string \<Rightarrow> string) \<Rightarrow> string \<Rightarrow> string option \<Rightarrow> string" where
  "generate_cache_key md5_16 prompt file_hash =
     (let key_input = prompt;
          key_input = (if nonempty_hash file_hash then key_input @ ''|'' @ the file_hash
                       else key_input)
      in md5_16 key_input)"

definition unlink :: "'r debate_cache \<Rightarrow> string \<Rightarrow> 'r debate_cache" where
  "unlink c cache_key = c\<lparr>cache_dir := (cache_dir c)(cache_key := None)\<rparr>"

definition cache_get ::
  "(string \<Rightarrow> string) \<Rightarrow> 'r debate_cache \<Rightarrow> int \<Rightarrow> string \<Rightarrow> string option
   \<Rightarrow> 'r debate_cache \<times> 'r option" where
  "cache_get md5_16 c now prompt file_hash =
     (let cache_key = generate_cache_key md5_16 prompt file_hash in
      case cache_dir c cache_key of
        None \<Rightarrow> (c, None)
      | Some cache_file \<Rightarrow>
         (if now - mtime cache_file > ttl c
          then (unlink c cache_key, None)
          else case file_data cache_file of
                 Corrupted \<Rightarrow> (unlink c cache_key, None)
               | Entry cached_data \<Rightarrow>
                  (if nonempty_hash file_hash \<and> cached_file_hash cached_data \<noteq> file_hash
                   then (unlink c cache_key, None)
                   else (c, Some (cached_response cached_data)))))"

text \<open>
  \<open>set\<close> (here \<open>cache_set\<close>): \<open>writable\<close> says whether the file could be written; a
  failed write is modelled as leaving the directory as it was.
\<close>

definition cache_set ::
  "(string \<Rightarrow> string) \<Rightarrow> 'r debate_cache \<Rightarrow> int \<Rightarrow> string \<Rightarrow> 'r \<Rightarrow> string option \<Rightarrow> bool
   \<Rightarrow> 'r debate_cache \<times> bool" where
  "cache_set md5_16 c now prompt response_data file_hash writable =
     (let cache_key = generate_cache_key md5_16 prompt file_hash in
      if writable
      then (c\<lparr>cache_dir := (cache_dir c)(cache_key \<mapsto>
                \<lparr>mtime = now,
                 file_data = Entry \<lparr>cached_file_hash = file_hash,
                                  cached_response = response_data\<rparr>\<rparr>)\<rparr>, True)
      else (c, False))"

text \<open>
  The first 16 hexadecimal digits of the MD5 digests of the three key inputs used in
  the examples below (\<open>p|h1\<close>, \<open>p|h2\<close> and \<open>p\<close>); the table says nothing about other
  inputs.
\<close>

definition md5_16_table :: "string \<Rightarrow> string" where
  "md5_16_table s =
     the (map_of [(''p|h1'', ''2bec4216b8cd62e7''),
                  (''p|h2'', ''e8c541d8680a668c''),
                  (''p'', ''83878c9117133890'')] s)"

lemmas cache_defs = cache_get_def cache_set_def generate_cache_key_def nonempty_hash_def
  unlink_def


section \<open>services/decision\_learner.py: the condition evaluator\<close>

text \<open>
  The trees of Python's \<open>ast\<close> module, as far as the evaluator tells them apart: the
  comparison operators, the boolean operators, constants by the type of their value, and
  the expression nodes. A float constant is kept without its value; node kinds the
  evaluator has no case for are \<open>Call\<close>, \<open>Attribute\<close> and \<open>Other_node\<close>.
\<close>

datatype cmpop = Lt | LtE | Gt | GtE | Eq | NotEq | Is | IsNot | In | NotIn

datatype boolop = And | Or

datatype const_value = CInt int | CBool bool | CFloat | CStr string | CNone

datatype node =
    Compare node "cmpop list" "node list"
  | BoolOp boolop "node list"
  | Constant const_value
  | Name string
  | Call node "node list"
  | Attribute node string
  | Other_node

definition SAFE_COMPARE_OPS :: "cmpop \<rightharpoonup> (int \<Rightarrow> int \<Rightarrow> bool)" where
  "SAFE_COMPARE_OPS =
     [Lt \<mapsto> (<), LtE \<mapsto> (\<le>), Gt \<mapsto> (>), GtE \<mapsto> (\<ge>), Eq \<mapsto> (=), NotEq \<mapsto> (\<noteq>)]"

text \<open>
  \<open>_get_value\<close>: \<open>isinstance(node.value, int)\<close> holds for the integers and, \<open>bool\<close>
  being a subclass of \<open>int\<close>, for \<open>True\<close> and \<open>False\<close>, which compare as 1 and 0. The
  branch for \<open>ast.Num\<close> is never taken for a node that is not a constant.
\<close>

fun get_value :: "node \<Rightarrow> int \<Rightarrow> py_exception + int" where
  "get_value (Constant (CInt n)) consensus = Inr n"
| "get_value (Constant (CBool b)) consensus = Inr (if b then 1 else 0)"
| "get_value (Constant v) consensus = Inl ValueError"
| "get_value (Name ident) consensus = (if ident = ''consensus'' then Inr consensus else Inl ValueError)"
| "get_value n consensus = Inl ValueError"

text \<open>The loop over \<open>zip(node.ops, node.comparators)\<close> of a comparison chain.\<close>

fun compare_chain :: "int \<Rightarrow> (cmpop \<times> node) list \<Rightarrow> int \<Rightarrow> py_exception + bool" where
  "compare_chain left [] consensus = Inr True"
| "compare_chain left ((op, comparator) # rest) consensus =
     (case SAFE_COMPARE_OPS op of
        None \<Rightarrow> Inl ValueError
      | Some f \<Rightarrow>
         (case get_value comparator consensus of
            Inl e \<Rightarrow> Inl e
          | Inr right \<Rightarrow>
             (if \<not> f left right then Inr False
              else compare_chain right rest consensus)))"

text \<open>A list comprehension over calls that can raise: the first exception ends it.\<close>

fun collect :: "('e + 'a) list \<Rightarrow> 'e + 'a list" where
  "collect [] = Inr []"
| "collect (Inl e # rs) = Inl e"
| "collect (Inr x # rs) = (case collect rs of Inl e \<Rightarrow> Inl e | Inr xs \<Rightarrow> Inr (x # xs))"

fun eval_node :: "node \<Rightarrow> int \<Rightarrow> py_exception + bool" where
  "eval_node (Compare left ops comparators) consensus =
     (case get_value left consensus of
        Inl e \<Rightarrow> Inl e
      | Inr l \<Rightarrow> compare_chain l (zip ops comparators) consensus)"
| "eval_node (BoolOp op vals) consensus =
     (case collect (map (\<lambda>v. eval_node v consensus) vals) of
        Inl e \<Rightarrow> Inl e
      | Inr results \<Rightarrow> Inr (case op of And \<Rightarrow> list_all id results | Or \<Rightarrow> list_ex id results))"
| "eval_node n consensus = Inl ValueError"

text \<open>
  \<open>safe_evaluate_condition\<close>: \<open>ast_parse\<close> stands for
  \<open>ast.parse(condition, mode='eval').body\<close>, a parameter of the model that returns the
  tree or the exception raised. The four caught exception classes give \<open>False\<close>; any
  other exception leaves the function (\<open>Inl\<close>).
\<close>

definition safe_evaluate_condition ::
  "(string \<Rightarrow> py_exception + node) \<Rightarrow> string \<Rightarrow> int \<Rightarrow> py_exception + bool" where
  "safe_evaluate_condition ast_parse condition consensus =
     (case (case ast_parse condition of
              Inl e \<Rightarrow> Inl e
            | Inr tree \<Rightarrow> eval_node tree consensus) of
        Inl e \<Rightarrow> (if e \<in> {SyntaxError, ValueError, KeyError, TypeError} then Inr False else Inl e)
      | Inr b \<Rightarrow> Inr b)"

text \<open>
  The trees \<open>ast.parse\<close> returns for the condition strings used in the examples below;
  the table says nothing about other strings.
\<close>

definition ast_parse_table :: "string \<Rightarrow> py_exception + node" where
  "ast_parse_table s =
     the (map_of
       [(''consensus > 50 or 1 < 0 < evil()'',
           Inr (BoolOp Or
                 [Compare (Name ''consensus'') [Gt] [Constant (CInt 50)],
                  Compare (Constant (CInt 1)) [Lt, Lt]
                    [Constant (CInt 0), Call (Name ''evil'') []]])),
        (''consensus > 50 or 1 < 0 < 2.5'',
           Inr (BoolOp Or
                 [Compare (Name ''consensus'') [Gt] [Constant (CInt 50)],
                  Compare (Constant (CInt 1)) [Lt, Lt] [Constant (CInt 0), Constant CFloat]])),
        (''consensus >= True'',
           Inr (Compare (Name ''consensus'') [GtE] [Constant (CBool True)])),
        (''70 <= consensus < 85'',
           Inr (Compare (Constant (CInt 70)) [LtE, Lt] [Name ''consensus'', Constant (CInt 85)]))] s)"


section \<open>services/iterative\_debate\_engine.py\<close>

text \<open>
  The engine object keeps the iteration history and the best result so far. A debate
  result is kept as an opaque value (type parameter) next to its consensus score. Of an
  iteration's record only the fields the engine reads again are kept. Clock readings,
  the delta snapshot and the plan hash are left out.
\<close>

datatype debate_type = full_debate | delta_debate

record iteration_data =
  it_iteration :: nat
  it_type :: debate_type
  it_consensus_score :: int
  it_is_best :: bool

record 'r engine =
  iteration_history :: "iteration_data list"
  best_result :: "'r option"
  best_consensus :: int
  best_iteration :: nat

record engine_config =
  cfg_target_consensus :: int
  cfg_max_rounds :: int
  min_improvement_threshold :: int
  max_regression_tolerance :: int

definition track_iteration :: "'r engine \<Rightarrow> iteration_data \<Rightarrow> 'r engine" where
  "track_iteration e d = e\<lparr>iteration_history := iteration_history e @ [d]\<rparr>"

text \<open>
  \<open>_update_best_result\<close>. The flags of the history are reset and the last entry is
  flagged; \<open>self.iteration_history[-1]\<close> raises \<open>IndexError\<close> on an empty history.
\<close>

definition update_best_result ::
  "'r engine \<Rightarrow> 'r \<Rightarrow> int \<Rightarrow> nat \<Rightarrow> py_exception + ('r engine \<times> bool)" where
  "update_best_result e current_result consensus iteration =
     (if consensus > best_consensus e
      then (let e = e\<lparr>best_result := Some current_result,
                        best_consensus := consensus,
                        best_iteration := iteration\<rparr>;
                hist = map (\<lambda>d. d\<lparr>it_is_best := False\<rparr>) (iteration_history e)
            in if hist = [] then Inl IndexError
               else Inr (e\<lparr>iteration_history := butlast hist @ [(last hist)\<lparr>it_is_best := True\<rparr>]\<rparr>,
                         True))
      else Inr (e, False))"

definition check_stopping_criteria :: "nat \<Rightarrow> int \<Rightarrow> int \<Rightarrow> int \<Rightarrow> bool \<times> string" where
  "check_stopping_criteria iteration consensus target_consensus max_iterations =
     (if consensus \<ge> target_consensus then (True, [])
      else if int iteration > max_iterations then (True, ''Max iterations reached'')
      else (False, []))"

text \<open>
  What the collaborators answer in one iteration of the loop: the plan reviser fails, the
  file write fails, or the plan is revised, written and debated again, with the kind of
  debate chosen, the result and its consensus score.
\<close>

datatype 'r attempt = Revision_failed | File_write_failed | Debated debate_type 'r int

datatype warning =
    Stop_reason string
  | Revision_failed_warning nat
  | File_write_failed_warning nat
  | No_improvement_warning nat
  | Regression_warning nat int int
  | Target_not_reached_warning int nat int

text \<open>
  The local variables of \<open>run_iterative_debate\<close> together with the engine object.
  \<open>ls_stopped\<close> records the \<open>break\<close> of the loop, \<open>ls_raised\<close> an exception that left
  the function.
\<close>

record 'r loop_state =
  ls_engine :: "'r engine"
  ls_consensus :: int
  ls_previous_consensus :: int
  ls_no_improvement_count :: nat
  ls_total_revisions :: nat
  ls_warnings :: "warning list"
  ls_stopped :: bool
  ls_raised :: "py_exception option"

definition iteration_step ::
  "engine_config \<Rightarrow> int \<Rightarrow> int \<Rightarrow> 'r attempt \<Rightarrow> nat \<Rightarrow> 'r loop_state \<Rightarrow> 'r loop_state" where
  "iteration_step cfg target_consensus max_iterations att iteration s =
     (let (should_stop, stop_reason) =
            check_stopping_criteria iteration (ls_consensus s) target_consensus max_iterations
      in if should_stop
         then s\<lparr>ls_warnings := (if stop_reason \<noteq> [] then ls_warnings s @ [Stop_reason stop_reason]
                                 else ls_warnings s),
                 ls_stopped := True\<rparr>
         else case att of
           Revision_failed \<Rightarrow>
             s\<lparr>ls_warnings := ls_warnings s @ [Revision_failed_warning iteration]\<rparr>
         | File_write_failed \<Rightarrow>
             s\<lparr>ls_warnings := ls_warnings s @ [File_write_failed_warning iteration]\<rparr>
         | Debated kind debate_result consensus \<Rightarrow>
            (case update_best_result (ls_engine s) debate_result consensus iteration of
               Inl e \<Rightarrow> s\<lparr>ls_stopped := True, ls_raised := Some e\<rparr>
             | Inr (eng, is_best) \<Rightarrow>
                (let eng = track_iteration eng
                             \<lparr>it_iteration = iteration, it_type = kind,
                              it_consensus_score = consensus, it_is_best = is_best\<rparr>;
                     s = s\<lparr>ls_engine := eng, ls_consensus := consensus,
                            ls_total_revisions := ls_total_revisions s + 1\<rparr>
                 in if consensus \<ge> target_consensus then s\<lparr>ls_stopped := True\<rparr>
                    else
                     (let improvement = consensus - ls_previous_consensus s;
                          count = (if improvement < min_improvement_threshold cfg
                                   then ls_no_improvement_count s + 1 else 0);
                          warnings = (if improvement < min_improvement_threshold cfg \<and> count \<ge> 2
                                      then ls_warnings s @ [No_improvement_warning iteration]
                                      else ls_warnings s);
                          warnings = (if consensus < ls_previous_consensus s
                                                      - max_regression_tolerance cfg
                                      then warnings @ [Regression_warning iteration
                                             (ls_previous_consensus s) consensus]
                                      else warnings)
                      in s\<lparr>ls_no_improvement_count := count, ls_warnings := warnings,
                            ls_previous_consensus := consensus\<rparr>))))"

text \<open>
  The \<open>for\<close> loop over \<open>range(2, max_iterations + 1)\<close>: the list of the states after
  each iteration that was entered, until the \<open>break\<close>.
\<close>

fun iterations ::
  "engine_config \<Rightarrow> int \<Rightarrow> int \<Rightarrow> (nat \<Rightarrow> 'r attempt) \<Rightarrow> nat list \<Rightarrow> 'r loop_state
   \<Rightarrow> 'r loop_state list" where
  "iterations cfg target_consensus max_iterations attempts [] s = []"
| "iterations cfg target_consensus max_iterations attempts (iteration # rest) s =
     (if ls_stopped s then []
      else let s' = iteration_step cfg target_consensus max_iterations (attempts iteration)
                      iteration s
           in s' # iterations cfg target_consensus max_iterations attempts rest s')"

text \<open>\<open>x or default\<close> for an optional integer argument.\<close>

definition or_default :: "int option \<Rightarrow> int \<Rightarrow> int" where
  "or_default x d = (case x of None \<Rightarrow> d | Some v \<Rightarrow> if v = 0 then d else v)"

text \<open>
  The states of one run, the first being the state after iteration 1: the first debate's
  result is stored as the best one whatever its score.
\<close>

definition run_states ::
  "engine_config \<Rightarrow> int option \<Rightarrow> int option \<Rightarrow> 'r \<Rightarrow> int \<Rightarrow> (nat \<Rightarrow> 'r attempt)
   \<Rightarrow> 'r loop_state list" where
  "run_states cfg target_opt max_opt first_result first_consensus attempts =
     (let target_consensus = or_default target_opt (cfg_target_consensus cfg);
          max_iterations = or_default max_opt (cfg_max_rounds cfg);
          e = \<lparr>iteration_history = [], best_result = None, best_consensus = 0,
               best_iteration = 0\<rparr>;
          e = track_iteration e \<lparr>it_iteration = 1, it_type = full_debate,
                                  it_consensus_score = first_consensus, it_is_best = True\<rparr>;
          e = e\<lparr>best_result := Some first_result, best_consensus := first_consensus,
                 best_iteration := 1\<rparr>;
          s = \<lparr>ls_engine = e, ls_consensus = first_consensus, ls_previous_consensus = 0,
               ls_no_improvement_count = 0, ls_total_revisions = 0, ls_warnings = [],
               ls_stopped = False, ls_raised = None\<rparr>
      in if first_consensus \<ge> target_consensus then [s\<lparr>ls_stopped := True\<rparr>]
         else let s = s\<lparr>ls_previous_consensus := first_consensus\<rparr>
              in s # iterations cfg target_consensus max_iterations attempts
                       [2 ..< nat (max_iterations + 1)] s)"

record 'r iterative_result =
  res_best_result :: "'r option"
  res_best_consensus :: int
  res_best_iteration :: nat
  res_final_consensus :: int
  res_total_iterations :: nat
  res_target_reached :: bool
  res_warnings :: "warning list"
  res_total_revisions :: nat

text \<open>
  \<open>run_iterative_debate\<close>: the result formatted from the last state, or the exception
  that left the loop.
\<close>

definition run_iterative_debate ::
  "engine_config \<Rightarrow> int option \<Rightarrow> int option \<Rightarrow> 'r \<Rightarrow> int \<Rightarrow> (nat \<Rightarrow> 'r attempt)
   \<Rightarrow> py_exception + 'r iterative_result" where
  "run_iterative_debate cfg target_opt max_opt first_result first_consensus attempts =
     (let target_consensus = or_default target_opt (cfg_target_consensus cfg);
          s = last (run_states cfg target_opt max_opt first_result first_consensus attempts);
          e = ls_engine s;
          final_consensus = (if iteration_history e = [] then 0
                             else it_consensus_score (last (iteration_history e)));
          warnings = (if \<not> first_consensus \<ge> target_consensus
                         \<and> final_consensus < target_consensus
                      then ls_warnings s @ [Target_not_reached_warning target_consensus
                             (length (iteration_history e)) (best_consensus e)]
                      else ls_warnings s)
      in case ls_raised s of
           Some ex \<Rightarrow> Inl ex
         | None \<Rightarrow>
            Inr \<lparr>res_best_result = best_result e,
                 res_best_consensus = best_consensus e,
                 res_best_iteration = best_iteration e,
                 res_final_consensus = final_consensus,
                 res_total_iterations = length (iteration_history e),
                 res_target_reached = (final_consensus \<ge> target_consensus),
                 res_warnings = warnings,
                 res_total_revisions = ls_total_revisions s\<rparr>)"


text \<open>
  A state of the loop in which the history has an entry and no exception was raised, and
  a run used as an example: target 85, at most 3 iterations, consensus 70 at iteration
  1, 60 at iteration 2 and 88 at iteration 3.
\<close>

definition healthy :: "'r loop_state \<Rightarrow> bool" where
  "healthy s = (iteration_history (ls_engine s) \<noteq> [] \<and> ls_raised s = None)"

definition demo_cfg :: engine_config where
  "demo_cfg = \<lparr>cfg_target_consensus = 90, cfg_max_rounds = 5,
                min_improvement_threshold = 5, max_regression_tolerance = 10\<rparr>"

definition demo_attempts :: "nat \<Rightarrow> string attempt" where
  "demo_attempts it =
     (if it = 2 then Debated full_debate ''second'' 60 else Debated full_debate ''third'' 88)"


section \<open>services/plan\_reviser.py\<close>

text \<open>
  \<open>str.splitlines()\<close> on ASCII text: a line ends at a line feed, a carriage return
  (with the line feed that follows it, if any), a vertical tab, a form feed or one of the
  separators \<open>0x1C\<close> to \<open>0x1E\<close>; a last line without an end is kept when it is not
  empty. \<open>cur\<close> is the line being read, reversed.
\<close>

definition is_line_end :: "char \<Rightarrow> bool" where
  "is_line_end c = (c \<in> set [CHR 0x0A, CHR 0x0B, CHR 0x0C, CHR 0x0D, CHR 0x1C, CHR 0x1D, CHR 0x1E])"

fun splitlines_from :: "string \<Rightarrow> string \<Rightarrow> string list" where
  "splitlines_from cur [] = (if cur = [] then [] else [rev cur])"
| "splitlines_from cur (c # cs) =
     (if c = CHR 0x0D
      then (case cs of
              [] \<Rightarrow> [rev cur]
            | c' # cs' \<Rightarrow> if c' = CHR 0x0A then rev cur # splitlines_from [] cs'
                         else rev cur # splitlines_from [] (c' # cs'))
      else if is_line_end c then rev cur # splitlines_from [] cs
      else splitlines_from (c # cur) cs)"

definition splitlines :: "string \<Rightarrow> string list" where
  "splitlines s = splitlines_from [] s"

text \<open>
  \<open>difflib.SequenceMatcher(None, a, b)\<close>, with no junk function and \<open>autojunk\<close> on, as
  the constructor's defaults have it.

  When the second list has 200 items or more, the items that occur in it more than
  \<open>n // 100 + 1\<close> times are popular and are dropped from the index \<open>b2j\<close>.

  \<open>find_longest_match\<close> first finds the longest block \<open>a[i:i+k] == b[j:j+k]\<close> made of
  items that are not popular (\<open>k\<close> largest, then \<open>i\<close> smallest, then \<open>j\<close> smallest;
  \<open>(0, 0, 0)\<close> when there is none: the lists passed here are the ranges
  \<open>a[alo:ahi]\<close> and \<open>b[blo:bhi]\<close>), and then extends the block by equal items, popular
  or not, first backwards and then forwards.

  \<open>get_matching_blocks\<close> splits at that block and searches on its left and on its
  right; \<open>ratio()\<close> is twice the number of matched items over the number of items of
  both lists, and 1 when both are empty. The ratio, a float in Python, is an exact
  rational here.
\<close>

definition popular :: "'a list \<Rightarrow> 'a list" where
  "popular b =
     (let n = length b
      in if n \<ge> 200
         then (let ntest = n div 100 + 1
               in filter (\<lambda>elt. count_list b elt > ntest) (remdups b))
         else [])"

fun common_prefix_length :: "'a list \<Rightarrow> 'a list \<Rightarrow> nat" where
  "common_prefix_length (x # xs) (y # ys) = (if x = y then Suc (common_prefix_length xs ys) else 0)"
| "common_prefix_length xs ys = 0"

text \<open>The length of the run of equal items that are not popular, from the heads on.\<close>

fun common_run :: "'a list \<Rightarrow> 'a list \<Rightarrow> 'a list \<Rightarrow> nat" where
  "common_run pop (x # xs) (y # ys) =
     (if x = y \<and> y \<notin> set pop then Suc (common_run pop xs ys) else 0)"
| "common_run pop xs ys = 0"

fun scan_row ::
  "'a list \<Rightarrow> 'a list \<Rightarrow> nat \<Rightarrow> 'a list \<Rightarrow> nat \<Rightarrow> nat \<times> nat \<times> nat \<Rightarrow> nat \<times> nat \<times> nat" where
  "scan_row pop sa i [] j best = best"
| "scan_row pop sa i (y # sb) j best =
     scan_row pop sa i sb (Suc j)
       (let k = common_run pop sa (y # sb)
        in if k > snd (snd best) then (i, j, k) else best)"

fun scan ::
  "'a list \<Rightarrow> 'a list \<Rightarrow> nat \<Rightarrow> 'a list \<Rightarrow> nat \<times> nat \<times> nat \<Rightarrow> nat \<times> nat \<times> nat" where
  "scan pop [] i b best = best"
| "scan pop (x # sa) i b best = scan pop sa (Suc i) b (scan_row pop (x # sa) i b 0 best)"

definition find_longest_match :: "'a list \<Rightarrow> 'a list \<Rightarrow> 'a list \<Rightarrow> nat \<times> nat \<times> nat" where
  "find_longest_match pop a b =
     (let m = scan pop a 0 b (0, 0, 0);
          besti = fst m; bestj = fst (snd m); bestsize = snd (snd m);
          back = common_prefix_length (rev (take besti a)) (rev (take bestj b));
          besti = besti - back; bestj = bestj - back; bestsize = bestsize + back;
          forward = common_prefix_length (drop (besti + bestsize) a) (drop (bestj + bestsize) b)
      in (besti, bestj, bestsize + forward))"

lemma common_prefix_length_le:
  "common_prefix_length xs ys \<le> length xs"
  by (induction xs ys rule: common_prefix_length.induct) auto

lemma common_run_le:
  "common_run pop xs ys \<le> length xs"
  by (induction pop xs ys rule: common_run.induct) auto

lemma scan_row_bound:
  "fst best + snd (snd best) \<le> n \<Longrightarrow> i + length sa \<le> n
   \<Longrightarrow> fst (scan_row pop sa i sb j best) + snd (snd (scan_row pop sa i sb j best)) \<le> n"
proof (induction sb arbitrary: j best)
  case Nil
  then show ?case by simp
next
  case (Cons y sb)
  have "common_run pop sa (y # sb) \<le> length sa"
    by (rule common_run_le)
  with Cons.prems show ?case
    by (auto simp: Let_def intro!: Cons.IH)
qed

lemma scan_bound:
  "fst best + snd (snd best) \<le> n \<Longrightarrow> i + length sa \<le> n
   \<Longrightarrow> fst (scan pop sa i b best) + snd (snd (scan pop sa i b best)) \<le> n"
proof (induction sa arbitrary: i best)
  case Nil
  then show ?case by simp
next
  case (Cons x sa)
  from Cons.prems have "fst (scan_row pop (x # sa) i b 0 best)
      + snd (snd (scan_row pop (x # sa) i b 0 best)) \<le> n"
    by (intro scan_row_bound) simp_all
  with Cons.prems show ?case
    by (auto intro!: Cons.IH)
qed

lemma find_longest_match_bounds:
  "fst (find_longest_match pop a b) + snd (snd (find_longest_match pop a b)) \<le> length a"
proof -
  define m where "m = scan pop a 0 b (0, 0, 0)"
  define eb where
    "eb = common_prefix_length (rev (take (fst m) a)) (rev (take (fst (snd m)) b))"
  define ef where
    "ef = common_prefix_length (drop (fst m - eb + (snd (snd m) + eb)) a)
                 (drop (fst (snd m) - eb + (snd (snd m) + eb)) b)"
  have m: "fst m + snd (snd m) \<le> length a"
    unfolding m_def by (rule scan_bound) simp_all
  have eb: "eb \<le> fst m"
    using common_prefix_length_le[of "rev (take (fst m) a)" "rev (take (fst (snd m)) b)"]
    by (simp add: eb_def)
  have ef: "ef \<le> length a - (fst m - eb + (snd (snd m) + eb))"
    using common_prefix_length_le[of "drop (fst m - eb + (snd (snd m) + eb)) a"]
    by (simp add: ef_def)
  have "find_longest_match pop a b
      = (fst m - eb, fst (snd m) - eb, snd (snd m) + eb + ef)"
    by (simp add: find_longest_match_def Let_def m_def eb_def ef_def)
  with m eb ef show ?thesis
    by simp
qed

function matching_size :: "'a list \<Rightarrow> 'a list \<Rightarrow> 'a list \<Rightarrow> nat" where
  "matching_size pop a b =
     (let m = find_longest_match pop a b; i = fst m; j = fst (snd m); k = snd (snd m)
      in if k = 0 then 0
         else k + matching_size pop (take i a) (take j b)
                + matching_size pop (drop (i + k) a) (drop (j + k) b))"
  by pat_completeness auto
termination
proof (relation "measure (\<lambda>(pop, a, b). length a + length b)")
  show "wf (measure (\<lambda>(pop, a, b). length a + length b))"
    by simp
next
  fix pop a b :: "'a list" and m i j k
  assume "m = find_longest_match pop a b" "i = fst m" "j = fst (snd m)" "k = snd (snd m)"
    "k \<noteq> 0"
  then have "i + k \<le> length a" "0 < k"
    using find_longest_match_bounds[of pop a b] by simp_all
  then show "((pop, take i a, take j b), (pop, a, b))
      \<in> measure (\<lambda>(pop, a, b). length a + length b)"
    by (simp add: min_def)
next
  fix pop a b :: "'a list" and m i j k
  assume "m = find_longest_match pop a b" "i = fst m" "j = fst (snd m)" "k = snd (snd m)"
    "k \<noteq> 0"
  then have "i + k \<le> length a" "0 < k"
    using find_longest_match_bounds[of pop a b] by simp_all
  then show "((pop, drop (i + k) a, drop (j + k) b), (pop, a, b))
      \<in> measure (\<lambda>(pop, a, b). length a + length b)"
    by simp
qed

declare matching_size.simps [simp del]

definition ratio :: "'a list \<Rightarrow> 'a list \<Rightarrow> rat" where
  "ratio a b =
     (let total = length a + length b
      in if total \<noteq> 0 then 2 * of_nat (matching_size (popular b) a b) / of_nat total else 1)"

definition calculate_change_percentage :: "string \<Rightarrow> string \<Rightarrow> rat" where
  "calculate_change_percentage original revised =
     (let original_lines = splitlines original;
          revised_lines = splitlines revised;
          similarity_ratio = ratio original_lines revised_lines
      in (1 - similarity_ratio) * 100)"

text \<open>
  \<open>_validate_revision\<close>; the two messages that quote the percentage are kept without
  the number.
\<close>

definition validate_revision :: "string \<Rightarrow> string \<Rightarrow> bool \<times> string" where
  "validate_revision original revised =
     (if revised = [] \<or> length revised < 100 then (False, ''Revision too short or empty'')
      else if revised = original then (False, ''No changes made by reviser'')
      else let change_pct = calculate_change_percentage original revised
           in if change_pct < 1 then (False, ''Changes too minimal'')
              else if change_pct > 50 then (False, ''Plan appears to be rewritten, not revised'')
              else (True, []))"


record codex_result =
  cx_success :: bool
  cx_response :: string



text \<open>
  Two pairs of plans used as examples. In the first the plans have 100 lines each and
  differ in the last line only; in the second they have two lines of 60 characters each
  and differ in the second line.
\<close>

definition join_lines :: "string list \<Rightarrow> string" where
  "join_lines ls = (case ls of [] \<Rightarrow> [] | l # rest \<Rightarrow> l @ concat (map (\<lambda>x. CHR 0x0A # x) rest))"





text \<open>
  A third pair, of 200 lines each: fifty lines of their own, \<open>a0\<close> to \<open>a49\<close> in the
  plan and \<open>b0\<close> to \<open>b49\<close> in the revision, followed by 150 lines \<open>x\<close>, which are
  popular in the revision.
\<close>

definition plan_200 :: string where
  "plan_200 = join_lines (map (\<lambda>i. CHR ''a'' # digits i) [0 ..< 50] @ replicate 150 ''x'')"

definition plan_200_revised :: string where
  "plan_200_revised =
     join_lines (map (\<lambda>i. CHR ''b'' # digits i) [0 ..< 50] @ replicate 150 ''x'')"


section \<open>Verified properties\<close>

subsection \<open>Priority scorer\<close>

lemma SEVERITY_SCORES_range:
  "SEVERITY_SCORES k = Some v \<Longrightarrow> 10 \<le> v \<and> v \<le> 40"
  by (auto simp: SEVERITY_SCORES_def split: if_splits)

lemma IMPACT_SCORES_range:
  "IMPACT_SCORES k = Some v \<Longrightarrow> 10 \<le> v \<and> v \<le> 40"
  by (auto simp: IMPACT_SCORES_def split: if_splits)

lemma EFFORT_PENALTY_range:
  "EFFORT_PENALTY k = Some v \<Longrightarrow> - 20 \<le> v \<and> v \<le> 0"
  by (auto simp: EFFORT_PENALTY_def split: if_splits)

text \<open>
  Claim C1 gives \<open>score_issue("critical", "high", "low")\<close> the result
  \<open>(80, stop_ship)\<close> and \<open>score_issue("high", "medium", "medium")\<close> the result
  \<open>(45, medium)\<close>, as the examples in the function's docstring do. The code returns
  the scores 80 and 45 with the labels \<open>HIGH\<close> and \<open>LOW\<close>: it compares the score to the
  thresholds 85, 65 and 50, and 80 is below 85, 45 below 50.
\<close>

theorem score_issue_misses_documented_labels:
  "score_issue ''critical'' ''high'' ''low'' = Inr (80, HIGH)
   \<and> score_issue ''critical'' ''high'' ''low'' \<noteq> Inr (80, STOP_SHIP)
   \<and> score_issue ''high'' ''medium'' ''medium'' = Inr (45, LOW)
   \<and> score_issue ''high'' ''medium'' ''medium'' \<noteq> Inr (45, MEDIUM)
   \<and> score_issue ''low'' ''low'' ''high'' = Inr (0, LOW)"
  by (simp add: scorer_eval str_eval)

text \<open>
  Whenever the three lower-cased arguments are keys of the three tables, the score
  \<open>score_issue\<close> returns is the severity contribution plus the impact contribution plus
  the effort penalty; that sum lies between 0 and 80, so clamping it to 0..100 changes
  nothing; the label is the one of the bands \<open>\<ge> 85\<close>, \<open>\<ge> 65\<close>, \<open>\<ge> 50\<close>, and since no
  sum reaches 85 the label \<open>STOP_SHIP\<close> is never returned.
\<close>

theorem score_issue_sum_and_bands:
  assumes s: "SEVERITY_SCORES (lower severity) = Some sev"
    and i: "IMPACT_SCORES (lower impact) = Some imp"
    and e: "EFFORT_PENALTY (lower effort) = Some pen"
  shows "score_issue severity impact effort
           = Inr (sev + imp + pen, label_by_bands (sev + imp + pen))
         \<and> sev + imp + pen = clamp 0 100 (sev + imp + pen)
         \<and> sev + imp + pen \<le> 80
         \<and> label_by_bands (sev + imp + pen) \<noteq> STOP_SHIP"
proof -
  have "score_issue severity impact effort
          = Inr (sev + imp + pen, label_by_bands (sev + imp + pen))"
    using s i e
    by (simp add: score_issue_def label_by_bands_def THRESHOLD_stop_ship_def
        THRESHOLD_high_def THRESHOLD_medium_def Let_def)
  moreover have "0 \<le> sev + imp + pen \<and> sev + imp + pen \<le> 80"
    using SEVERITY_SCORES_range[OF s] IMPACT_SCORES_range[OF i] EFFORT_PENALTY_range[OF e]
    by simp
  ultimately show ?thesis
    by (simp add: clamp_def label_by_bands_def)
qed

theorem score_issue_sum_and_bands_witness:
  "SEVERITY_SCORES (lower ''Medium'') = Some 20
   \<and> IMPACT_SCORES (lower ''HIGH'') = Some 40
   \<and> EFFORT_PENALTY (lower ''low'') = Some 0
   \<and> score_issue ''Medium'' ''HIGH'' ''low'' = Inr (60, MEDIUM)
   \<and> (60 :: int) = clamp 0 100 60"
proof -
  have s: "SEVERITY_SCORES (lower ''Medium'') = Some 20"
    and i: "IMPACT_SCORES (lower ''HIGH'') = Some 40"
    and e: "EFFORT_PENALTY (lower ''low'') = Some 0"
    by (simp_all add: scorer_eval str_eval)
  from score_issue_sum_and_bands[OF s i e] s i e
  show ?thesis by (simp add: label_by_bands_def)
qed

subsection \<open>Complexity heuristic\<close>

lemma count_matches_nonneg: "0 \<le> count_matches ks r"
  by (simp add: count_matches_def)

lemma list_ex_count_matches: "list_ex (contains r) ks \<longleftrightarrow> count_matches ks r > 0"
  by (simp add: count_matches_def list_ex_iff filter_empty_conv)

lemma clamp_after_penalty:
  fixes y :: int
  assumes "0 \<le> y"
  shows "min (if p then max 0 (y - 30) else y) 100 = clamp 0 100 (y - (if p then 30 else 0))"
  using assms by (cases p) (simp_all add: clamp_def min_def max_def)

lemma complexity_empty: "calculate_placeholder_complexity '''' [] = 5"
  by code_simp

lemma complexity_laden:
  "calculate_placeholder_complexity
     ''Add new system-wide refactor to migrate the entire database schema and API''
     [''a.py'', ''b.py'', ''c.py'', ''d.py''] = 100"
  by code_simp

lemma complexity_refines_formula:
  "calculate_placeholder_complexity request file_paths = complexity_formula request file_paths"
proof -
  define r where "r = lower request"
  define A where "A = count_matches architectural_keywords r"
  define S where "S = count_matches scope_keywords r"
  define M where "M = count_matches simple_keywords r"
  define n where "n = length file_paths"
  define F :: int where
    "F = (if n = 0 then 0 + 5 else if n = 1 then 0 + 10 else if n \<le> 3 then 0 + 15 else 0 + 20)"
  define a where "a = min (A * 12) 50"
  define s where "s = min (S * 12) 25"
  define c where "c = contains r ''add ''"
  define y where "y = (if c then (if list_ex (contains r) architectural_keywords
                                   then F + a + s + 5 else F + a + s)
                       else F + a + s)"
  have code: "calculate_placeholder_complexity request file_paths
       = min (if M > 0 then max 0 (y - 30) else y) 100"
    unfolding calculate_placeholder_complexity_def Let_def y_def c_def s_def a_def F_def n_def
      M_def S_def A_def r_def
    by (rule refl)
  have F: "F = file_count_contribution n"
    by (simp add: F_def file_count_contribution_def)
  have a: "a = min (12 * A) 50" and s: "s = min (12 * S) 25"
    by (simp_all add: a_def s_def mult.commute)
  have y': "y = F + a + s + (if c \<and> A > 0 then 5 else 0)"
    by (simp add: y_def list_ex_count_matches A_def)
  have "0 \<le> A" and "0 \<le> S"
    by (simp_all add: A_def S_def count_matches_nonneg)
  then have "0 \<le> a" and "0 \<le> s"
    by (simp_all add: a_def s_def)
  moreover have "0 \<le> F"
    by (simp add: F_def)
  ultimately have y: "0 \<le> y"
    by (simp add: y')
  have spec: "complexity_formula request file_paths = clamp 0 100 (y - (if M > 0 then 30 else 0))"
    unfolding complexity_formula_def Let_def y' F a s c_def M_def S_def A_def r_def n_def
    by (rule refl)
  show ?thesis
    unfolding code spec using y by (rule clamp_after_penalty)
qed

text \<open>
  Claim C6, as the spec states it, gives the empty request with no files the score 0.
  The code adds 5 for a file count of 0, so that input scores 5, also through
  \<open>check_debate_required\<close> with the system enabled and the default threshold 40.
\<close>

theorem complexity_empty_request_is_5:
  "calculate_placeholder_complexity '''' [] = 5
   \<and> calculate_placeholder_complexity '''' [] \<noteq> 0
   \<and> complexity_score (check_debate_required True 40 '''' (Some [])) = 5"
  by (simp add: check_debate_required_def complexity_empty)

text \<open>
  Claim C6, amended: the heuristic returns 5 for the empty request with an empty file
  list; its score always lies in 0..100 and reaches 100 on a keyword-laden request with
  four files; and in general the score is the file-count contribution (5, 10, 15, 20 for
  0, 1, 2 to 3, 4 or more files), plus 12 per architectural keyword capped at 50, plus 12
  per scope keyword capped at 25, plus 5 once when \<open>add\<close> followed by a space occurs
  together with an architectural keyword, minus 30 when a simple-change keyword occurs,
  clamped to 0..100.
\<close>

theorem complexity_score_formula:
  "calculate_placeholder_complexity '''' [] = 5
   \<and> 0 \<le> calculate_placeholder_complexity request file_paths
   \<and> calculate_placeholder_complexity request file_paths \<le> 100
   \<and> calculate_placeholder_complexity
        ''Add new system-wide refactor to migrate the entire database schema and API''
        [''a.py'', ''b.py'', ''c.py'', ''d.py''] = 100
   \<and> calculate_placeholder_complexity request file_paths = complexity_formula request file_paths"
proof -
  have range: "0 \<le> complexity_formula request file_paths
      \<and> complexity_formula request file_paths \<le> 100"
    unfolding complexity_formula_def clamp_def Let_def by simp
  then have "0 \<le> calculate_placeholder_complexity request file_paths
      \<and> calculate_placeholder_complexity request file_paths \<le> 100"
    by (simp only: complexity_refines_formula)
  with complexity_empty complexity_laden complexity_refines_formula[of request file_paths]
  show ?thesis
    by blast
qed

subsection \<open>Fast moderator\<close>

lemma floor_half: "\<lfloor>real_of_int k / 2\<rfloor> = k div 2"
  using floor_divide_of_int_eq[of k 2, where ?'a = real] by simp

lemma example_disagreements:
  "extract_disagreements ''Agree on plan. Good approach.''
     ''Good overall. One concern: missing tests.'' = [(''Codex'', ''One concern: missing tests'')]"
  by code_simp

lemma example_agreements:
  "extract_agreements ''Agree on plan. Good approach.''
     ''Good overall. One concern: missing tests.''
   = [''Agree on plan'', ''Good approach'', ''Good overall'']"
  by code_simp

lemma example_analyze:
  "analyze \<lparr>score = Some 88, response = Some ''Agree on plan. Good approach.''\<rparr>
      \<lparr>score = Some 82, response = Some ''Good overall. One concern: missing tests.''\<rparr> None
    = \<lparr>consensus_score = 85, interpretation_str = ''Strong Agreement'',
        recommendation = ''[PROCEED CONFIDENTLY] Strong consensus'', score_difference = 6,
        disagreements = [(''Codex'', ''One concern: missing tests'')],
        agreements = [''Agree on plan'', ''Good approach'', ''Good overall'']\<rparr>"
  by (simp add: analyze_def Let_def determine_agreement_level_def generate_recommendation_def
      PROCEED_CONFIDENTLY_def STRONG_AGREEMENT_THRESHOLD_def example_disagreements
      example_agreements)

text \<open>
  Claim C9, as the spec states it, gives the recommendation \<open>[PROCEED CONFIDENTLY]\<close>.
  The string \<open>analyze\<close> returns on the scenario's inputs is
  \<open>[PROCEED CONFIDENTLY] Strong consensus\<close>: the tag followed by its message.
\<close>

theorem analyze_recommendation_is_not_the_bare_tag:
  "recommendation
     (analyze \<lparr>score = Some 88, response = Some ''Agree on plan. Good approach.''\<rparr>
        \<lparr>score = Some 82, response = Some ''Good overall. One concern: missing tests.''\<rparr>
        None)
   \<noteq> ''[PROCEED CONFIDENTLY]''"
  by (simp add: example_analyze)

text \<open>
  Claim C9, amended: on the inputs with scores 88 and 82 and the two responses of the
  spec's scenario, with no pattern issues, \<open>analyze\<close> returns consensus score 85, score
  difference 6, the interpretation \<open>Strong Agreement\<close>, the recommendation
  \<open>[PROCEED CONFIDENTLY] Strong consensus\<close>, a non-empty list of agreements, and a list
  of disagreements that holds the sentence with \<open>concern\<close> of the second response; and
  for any two scores the consensus score is the floor of their mean.
\<close>

theorem analyze_example_and_mean:
  "analyze \<lparr>score = Some 88, response = Some ''Agree on plan. Good approach.''\<rparr>
      \<lparr>score = Some 82, response = Some ''Good overall. One concern: missing tests.''\<rparr> None
    = \<lparr>consensus_score = 85, interpretation_str = ''Strong Agreement'',
        recommendation = ''[PROCEED CONFIDENTLY] Strong consensus'', score_difference = 6,
        disagreements = [(''Codex'', ''One concern: missing tests'')],
        agreements = [''Agree on plan'', ''Good approach'', ''Good overall'']\<rparr>
   \<and> recommendation
         (analyze \<lparr>score = Some 88, response = Some ''Agree on plan. Good approach.''\<rparr>
            \<lparr>score = Some 82, response = Some ''Good overall. One concern: missing tests.''\<rparr>
            None)
       = ''[PROCEED CONFIDENTLY] Strong consensus''
   \<and> agreements
         (analyze \<lparr>score = Some 88, response = Some ''Agree on plan. Good approach.''\<rparr>
            \<lparr>score = Some 82, response = Some ''Good overall. One concern: missing tests.''\<rparr>
            None) \<noteq> []
   \<and> (''Codex'', ''One concern: missing tests'')
       \<in> set (disagreements
         (analyze \<lparr>score = Some 88, response = Some ''Agree on plan. Good approach.''\<rparr>
            \<lparr>score = Some 82, response = Some ''Good overall. One concern: missing tests.''\<rparr>
            None))
   \<and> consensus_score (analyze \<lparr>score = Some s1, response = r1\<rparr>
                                  \<lparr>score = Some s2, response = r2\<rparr> p)
       = \<lfloor>real_of_int (s1 + s2) / 2\<rfloor>"
proof -
  have mean: "consensus_score (analyze \<lparr>score = Some s1, response = r1\<rparr>
                                  \<lparr>score = Some s2, response = r2\<rparr> p)
       = \<lfloor>real_of_int (s1 + s2) / 2\<rfloor>"
    by (simp only: floor_half) (simp add: analyze_def Let_def)
  show ?thesis
    unfolding example_analyze using mean by simp
qed

subsection \<open>Execution gate and user override\<close>




subsection \<open>Proposals and the sequence counter\<close>

lemma filter_write_text_other:
  "a \<noteq> b \<Longrightarrow>
   filter (\<lambda>f. fst (fst f) = a) (write_text (b, n) c fs) = filter (\<lambda>f. fst (fst f) = a) fs"
  by (induction fs) auto

lemma filter_write_text_same:
  "filter (\<lambda>f. fst (fst f) = a) (write_text (a, n) c fs)
   = write_text (a, n) c (filter (\<lambda>f. fst (fst f) = a) fs)"
  by (induction fs) auto

lemma codex_writes_state:
  "sequence_file d = Some k \<Longrightarrow>
   sequence_file (codex_writes n d) = Some (k + int n)
   \<and> filter (\<lambda>f. fst (fst f) = ''claude'') (proposal_files (codex_writes n d))
     = filter (\<lambda>f. fst (fst f) = ''claude'') (proposal_files d)"
  by (induction n)
     (auto simp: write_proposal_def get_next_sequence_def Let_def filter_write_text_other)

lemma format_examples:
  "format_03d 999 = ''999''" "format_03d 1000 = ''1000''" "str_int 1 = ''1''"
  by code_simp+

lemma glob_match_examples:
  "glob_match 1 ''round_1_seq_999.md''" "glob_match 1 ''round_1_seq_1000.md''"
  by code_simp+

lemma sorted_paths_999_1000:
  "sorted_paths [(''round_1_seq_999.md'', ''A''), (''round_1_seq_1000.md'', ''B'')]
   = [(''round_1_seq_1000.md'', ''B''), (''round_1_seq_999.md'', ''A'')]"
  by code_simp

text \<open>
  Claim C4 says that \<open>read_proposal\<close> returns the content of the last successful
  write also when the session-wide counter exceeds 999. In a new session, after 998
  proposals written by codex, claude writes \<open>A\<close> (sequence 999) and then \<open>B\<close> (sequence
  1000) for round 1. The file names are \<open>round_1_seq_999.md\<close> and
  \<open>round_1_seq_1000.md\<close>; sorted as text the second comes first, and \<open>read_proposal\<close>
  returns \<open>A\<close>, the content of the earlier write.
\<close>

theorem read_proposal_past_999_returns_older_write:
  "(let d0 = codex_writes 998 (new_session ''s'' ''t0'');
        w1 = write_proposal d0 ''claude'' 1 ''A'' IO_ok;
        w2 = write_proposal (fst w1) ''claude'' 1 ''B'' IO_ok
    in w_success (snd w1) \<and> w_sequence (snd w1) = 999
       \<and> w_success (snd w2) \<and> w_sequence (snd w2) = 1000
       \<and> r_success (read_proposal (fst w2) ''claude'' 1)
       \<and> r_content (read_proposal (fst w2) ''claude'' 1) = ''A'')"
proof -
  define d0 where "d0 = codex_writes 998 (new_session ''s'' ''t0'')"
  have "sequence_file (new_session ''s'' ''t0'') = Some 0"
    by (simp add: new_session_def)
  from codex_writes_state[OF this, of 998]
  have seq: "sequence_file d0 = Some 998"
    and files: "filter (\<lambda>f. fst (fst f) = ''claude'') (proposal_files d0) = []"
    by (simp_all add: d0_def new_session_def)
  show ?thesis
    unfolding d0_def[symmetric] Let_def
    using seq files
    by (simp add: write_proposal_def get_next_sequence_def read_proposal_def Let_def
        format_examples filter_write_text_same glob_match_examples sorted_paths_999_1000)
qed

text \<open>
  Claim C10: \<open>write_proposal\<close> with a participant label other than \<open>claude\<close> and
  \<open>codex\<close> returns a failure with sequence 0 and leaves the session directory, and so
  the counter, as it was: the next \<open>get_next_sequence\<close> gives what it would have given
  without the call.
\<close>

theorem invalid_participant_consumes_no_sequence:
  assumes "ai_name \<notin> {''claude'', ''codex''}"
  shows "\<not> w_success (snd (write_proposal d ai_name round_num content env))
     \<and> w_sequence (snd (write_proposal d ai_name round_num content env)) = 0
     \<and> fst (write_proposal d ai_name round_num content env) = d
     \<and> get_next_sequence (fst (write_proposal d ai_name round_num content env)) lock_acquired
       = get_next_sequence d lock_acquired"
  using assms by (simp add: write_proposal_def)

theorem invalid_participant_consumes_no_sequence_witness:
  "''gemini'' \<notin> {''claude'', ''codex''}
   \<and> \<not> w_success (snd (write_proposal (new_session ''s'' ''t0'') ''gemini'' 1 ''text'' IO_ok))
   \<and> w_sequence (snd (write_proposal (new_session ''s'' ''t0'') ''gemini'' 1 ''text'' IO_ok)) = 0
   \<and> get_next_sequence
        (fst (write_proposal (new_session ''s'' ''t0'') ''gemini'' 1 ''text'' IO_ok)) True
     = Inr ((new_session ''s'' ''t0'')\<lparr>sequence_file := Some 1\<rparr>, 1)"
proof -
  have h: "''gemini'' \<notin> {''claude'', ''codex''}"
    by simp
  from invalid_participant_consumes_no_sequence
         [OF h, of "new_session ''s'' ''t0''" 1 "''text''" IO_ok True]
  show ?thesis
    by (simp add: get_next_sequence_def new_session_def)
qed

subsection \<open>Debate cache\<close>

text \<open>
  Claim C2, as the spec states it, has every lookup with \<open>h1 \<noteq> h2\<close> remove the stored
  entry. The file hash is part of the cache key, so \<open>get("p", "h2")\<close> after
  \<open>set("p", response, "h1")\<close> looks for another file, finds none and returns a miss;
  the entry stored under the key of \<open>p|h1\<close> is still in the cache directory.
\<close>

theorem cache_get_other_hash_keeps_entry:
  "(let c0 = \<lparr>cache_dir = Map.empty, ttl = 300\<rparr>;
        s = cache_set md5_16_table c0 1000 ''p'' ''answer'' (Some ''h1'') True;
        g = cache_get md5_16_table (fst s) 1010 ''p'' (Some ''h2'')
    in snd s \<and> snd g = None
       \<and> cache_dir (fst g) (generate_cache_key md5_16_table ''p'' (Some ''h1''))
         = Some \<lparr>mtime = 1000, file_data = Entry \<lparr>cached_file_hash = Some ''h1'',
                                                  cached_response = ''answer''\<rparr>\<rparr>)"
  by (simp add: cache_defs md5_16_table_def Let_def)

text \<open>
  Claim C2, amended: let \<open>set(p, response, h1)\<close> succeed at time \<open>t0\<close> and let
  \<open>get(p, h2)\<close> be called at time \<open>t1\<close>. If the lookup's cache key is the key of the
  stored entry (as it is when \<open>h1 = h2\<close>), then it returns the stored response if and
  only if the TTL has not elapsed (\<open>t1 - t0 \<le> ttl\<close>) and \<open>h2\<close> is absent, empty or equal
  to \<open>h1\<close>; in every other such case it is a miss and the stored entry has been removed
  from the cache directory. In particular for \<open>h1 = h2\<close> the response is returned if
  and only if the TTL has not elapsed. If the lookup's cache key differs from the stored
  entry's (the case of \<open>h1 \<noteq> h2\<close> without a collision of the 16-digit keys), the stored
  entry is left in the cache directory.
\<close>

theorem cache_get_after_set:
  fixes c :: "'r debate_cache"
  assumes s: "cache_set md5_16 c t0 prompt response_data h1 True = (c1, True)"
    and g: "cache_get md5_16 c1 t1 prompt h2 = (c2, r)"
  shows "(generate_cache_key md5_16 prompt h2 = generate_cache_key md5_16 prompt h1 \<longrightarrow>
            (r = Some response_data \<longleftrightarrow> t1 - t0 \<le> ttl c \<and> (\<not> nonempty_hash h2 \<or> h2 = h1))
          \<and> (r \<noteq> Some response_data \<longrightarrow>
                r = None \<and> cache_dir c2 (generate_cache_key md5_16 prompt h1) = None))
       \<and> (h2 = h1 \<longrightarrow> (r = Some response_data \<longleftrightarrow> t1 - t0 \<le> ttl c))
       \<and> (generate_cache_key md5_16 prompt h2 \<noteq> generate_cache_key md5_16 prompt h1 \<longrightarrow>
            cache_dir c2 (generate_cache_key md5_16 prompt h1)
            = Some \<lparr>mtime = t0, file_data = Entry \<lparr>cached_file_hash = h1,
                                                   cached_response = response_data\<rparr>\<rparr>)"
proof -
  define k1 where "k1 = generate_cache_key md5_16 prompt h1"
  define k2 where "k2 = generate_cache_key md5_16 prompt h2"
  define e where "e = \<lparr>mtime = t0, file_data = Entry \<lparr>cached_file_hash = h1,
                                                   cached_response = response_data\<rparr>\<rparr>"
  have c1: "c1 = c\<lparr>cache_dir := (cache_dir c)(k1 \<mapsto> e)\<rparr>"
    using s by (simp add: cache_set_def Let_def k1_def e_def)
  have same: "cache_get md5_16 c1 t1 prompt h2
      = (if t1 - t0 > ttl c \<or> (nonempty_hash h2 \<and> h1 \<noteq> h2)
         then (unlink c1 k1, None) else (c1, Some response_data))" if "k2 = k1"
    using that by (simp add: cache_get_def Let_def c1 k2_def[symmetric] e_def)
  have other: "cache_dir (fst (cache_get md5_16 c1 t1 prompt h2)) k1 = Some e" if "k2 \<noteq> k1"
    using that
    by (simp add: cache_get_def Let_def c1 k2_def[symmetric] unlink_def
        split: option.splits cache_content.splits)
  have hit: "r = Some response_data \<longleftrightarrow> t1 - t0 \<le> ttl c \<and> (\<not> nonempty_hash h2 \<or> h2 = h1)"
    and miss: "r \<noteq> Some response_data \<longrightarrow> r = None \<and> cache_dir c2 k1 = None"
    if "k2 = k1"
    using same[OF that] g by (auto simp: unlink_def split: if_splits)
  have eq: "k2 = k1" if "h2 = h1"
    using that by (simp add: k1_def k2_def)
  have kept: "cache_dir c2 k1 = Some e" if "k2 \<noteq> k1"
    using other[OF that] g by simp
  show ?thesis
    unfolding k1_def[symmetric] k2_def[symmetric] e_def[symmetric]
    using hit miss eq kept by blast
qed

theorem cache_get_after_set_witness:
  "snd (cache_set md5_16_table \<lparr>cache_dir = Map.empty, ttl = 300\<rparr> 1000 ''p'' ''answer''
          (Some ''h1'') True)
   \<and> snd (cache_get md5_16_table
          (fst (cache_set md5_16_table \<lparr>cache_dir = Map.empty, ttl = 300\<rparr> 1000 ''p''
                  ''answer'' (Some ''h1'') True))
          1400 ''p'' (Some ''h1'')) = None
   \<and> cache_dir (fst (cache_get md5_16_table
          (fst (cache_set md5_16_table \<lparr>cache_dir = Map.empty, ttl = 300\<rparr> 1000 ''p''
                  ''answer'' (Some ''h1'') True))
          1400 ''p'' (Some ''h1'')))
        (generate_cache_key md5_16_table ''p'' (Some ''h1'')) = None"
proof -
  define c0 :: "string debate_cache" where "c0 = \<lparr>cache_dir = Map.empty, ttl = 300\<rparr>"
  define s where "s = cache_set md5_16_table c0 1000 ''p'' ''answer'' (Some ''h1'') True"
  define g where "g = cache_get md5_16_table (fst s) 1400 ''p'' (Some ''h1'')"
  have ok: "snd s"
    by (simp add: s_def cache_set_def)
  then have s': "cache_set md5_16_table c0 1000 ''p'' ''answer'' (Some ''h1'') True = (fst s, True)"
    by (simp add: s_def[symmetric] prod_eq_iff)
  have g': "cache_get md5_16_table (fst s) 1400 ''p'' (Some ''h1'') = (fst g, snd g)"
    by (simp add: g_def)
  from cache_get_after_set[OF s' g']
  have "snd g = None
      \<and> cache_dir (fst g) (generate_cache_key md5_16_table ''p'' (Some ''h1'')) = None"
    by (simp add: c0_def)
  with ok show ?thesis
    by (simp add: g_def s_def c0_def)
qed

subsection \<open>Condition evaluator\<close>

text \<open>
  Claim C5 says that \<open>safe_evaluate_condition\<close> returns false for every condition that
  holds a construct outside the whitelist, in particular a function call or a float.
  A comparison chain returns \<open>False\<close> at its first failing comparison, before the later
  comparators are looked at, and an \<open>or\<close> turns that \<open>False\<close> into \<open>True\<close>: with
  consensus 70 the conditions \<open>consensus > 50 or 1 < 0 < evil()\<close> and
  \<open>consensus > 50 or 1 < 0 < 2.5\<close> evaluate to true. The boolean constant of
  \<open>consensus >= True\<close> passes the test for an integer constant as well.
\<close>

theorem safe_evaluate_condition_accepts_unlisted_constructs:
  "safe_evaluate_condition ast_parse_table ''consensus > 50 or 1 < 0 < evil()'' 70 = Inr True
   \<and> safe_evaluate_condition ast_parse_table ''consensus > 50 or 1 < 0 < 2.5'' 70 = Inr True
   \<and> safe_evaluate_condition ast_parse_table ''consensus >= True'' 70 = Inr True"
  by (simp add: safe_evaluate_condition_def ast_parse_table_def SAFE_COMPARE_OPS_def)

subsection \<open>Iterative debate engine\<close>

lemma update_best_result_not_better:
  "consensus \<le> best_consensus e \<Longrightarrow> update_best_result e r consensus it = Inr (e, False)"
  by (simp add: update_best_result_def)

lemma update_best_result_mono:
  "update_best_result e r consensus it = Inr (e', b) \<Longrightarrow> best_consensus e \<le> best_consensus e'"
  by (auto simp: update_best_result_def Let_def split: if_splits)

lemma iteration_step_mono:
  "best_consensus (ls_engine s)
   \<le> best_consensus (ls_engine (iteration_step cfg target mx att it s))"
  by (auto simp: iteration_step_def Let_def track_iteration_def check_stopping_criteria_def
      split: attempt.splits sum.splits prod.splits if_splits dest: update_best_result_mono)

lemma iteration_step_healthy:
  "healthy s \<Longrightarrow> healthy (iteration_step cfg target mx att it s)"
  by (auto simp: healthy_def iteration_step_def Let_def track_iteration_def
      check_stopping_criteria_def update_best_result_def
      split: attempt.splits sum.splits prod.splits if_splits)

lemma iteration_step_keeps_best:
  assumes "consensus \<le> best_consensus (ls_engine s)"
  shows "best_result (ls_engine (iteration_step cfg target mx (Debated kind r consensus) it s))
         = best_result (ls_engine s)
     \<and> best_consensus (ls_engine (iteration_step cfg target mx (Debated kind r consensus) it s))
         = best_consensus (ls_engine s)
     \<and> best_iteration (ls_engine (iteration_step cfg target mx (Debated kind r consensus) it s))
         = best_iteration (ls_engine s)"
  using assms
  by (auto simp: iteration_step_def Let_def track_iteration_def check_stopping_criteria_def
      update_best_result_not_better split: prod.splits if_splits)

lemma iterations_lower_bound:
  "s' \<in> set (iterations cfg target mx attempts its s)
   \<Longrightarrow> best_consensus (ls_engine s) \<le> best_consensus (ls_engine s')"
proof (induction its arbitrary: s)
  case Nil
  then show ?case by simp
next
  case (Cons it its)
  let ?s1 = "iteration_step cfg target mx (attempts it) it s"
  from Cons.prems have "s' = ?s1 \<or> s' \<in> set (iterations cfg target mx attempts its ?s1)"
    by (auto simp: Let_def split: if_splits)
  then show ?case
  proof
    assume "s' = ?s1"
    then show ?thesis by (simp add: iteration_step_mono)
  next
    assume "s' \<in> set (iterations cfg target mx attempts its ?s1)"
    from Cons.IH[OF this] iteration_step_mono[of s cfg target mx "attempts it" it]
    show ?thesis by linarith
  qed
qed

lemma iterations_healthy:
  "healthy s \<Longrightarrow> s' \<in> set (iterations cfg target mx attempts its s) \<Longrightarrow> healthy s'"
proof (induction its arbitrary: s)
  case Nil
  then show ?case by simp
next
  case (Cons it its)
  let ?s1 = "iteration_step cfg target mx (attempts it) it s"
  from Cons.prems(2) have "s' = ?s1 \<or> s' \<in> set (iterations cfg target mx attempts its ?s1)"
    by (auto simp: Let_def split: if_splits)
  with Cons.IH[of ?s1] iteration_step_healthy[OF Cons.prems(1)] show ?case
    by blast
qed

lemma iterations_sorted:
  "sorted_wrt (\<lambda>a b. best_consensus (ls_engine a) \<le> best_consensus (ls_engine b))
     (s # iterations cfg target mx attempts its s)"
proof (induction its arbitrary: s)
  case Nil
  then show ?case by simp
next
  case (Cons it its)
  let ?s1 = "iteration_step cfg target mx (attempts it) it s"
  show ?case
  proof (cases "ls_stopped s")
    case True
    then show ?thesis by simp
  next
    case False
    have "\<forall>y \<in> set (?s1 # iterations cfg target mx attempts its ?s1).
            best_consensus (ls_engine s) \<le> best_consensus (ls_engine y)"
      using iterations_lower_bound[of _ cfg target mx attempts its ?s1]
        iteration_step_mono[of s cfg target mx "attempts it" it]
      by (auto intro: order_trans)
    with Cons.IH[of ?s1] False show ?thesis
      by (simp add: Let_def)
  qed
qed

lemma run_states_sorted:
  "sorted_wrt (\<lambda>a b. best_consensus (ls_engine a) \<le> best_consensus (ls_engine b))
     (run_states cfg target_opt max_opt r1 c1 attempts)"
  unfolding run_states_def Let_def
  by (simp del: sorted_wrt.simps add: iterations_sorted sorted_wrt1)

lemma run_states_nonempty: "run_states cfg target_opt max_opt r1 c1 attempts \<noteq> []"
  by (simp add: run_states_def Let_def)

lemma run_states_healthy:
  "s \<in> set (run_states cfg target_opt max_opt r1 c1 attempts) \<Longrightarrow> healthy s"
  unfolding run_states_def Let_def
  by (auto simp: healthy_def track_iteration_def split: if_splits
      dest!: iterations_healthy[rotated])

lemma demo_range: "[2 ..< nat (3 + 1)] = [2, 3]"
  by (simp add: upt_rec)

lemma demo_run:
  "map (\<lambda>s. (best_consensus (ls_engine s), best_iteration (ls_engine s),
             best_result (ls_engine s)))
     (run_states demo_cfg (Some 85) (Some 3) ''first'' 70 demo_attempts)
   = [(70, 1, Some ''first''), (70, 1, Some ''first''), (88, 3, Some ''third'')]"
  by (simp add: run_states_def or_default_def demo_cfg_def demo_attempts_def Let_def demo_range
      iteration_step_def check_stopping_criteria_def update_best_result_def track_iteration_def)

text \<open>
  Claim C8: in \<open>run_iterative_debate\<close> the best consensus is non-decreasing over the
  iterations (the state after iteration \<open>i\<close> against the state after a later iteration
  \<open>j\<close>; iteration 1 stores its own score as the first best); \<open>_update_best_result\<close>
  with a score that is lower than or equal to the current best changes nothing and
  returns false, and an iteration of the loop with such a score leaves the best result,
  the best consensus and the best iteration number as they were. The run returns a
  result, whose best fields are those of the last state.
\<close>

theorem best_consensus_never_decreases:
  "(i < j \<and> j < length (run_states cfg target_opt max_opt r1 c1 attempts) \<longrightarrow>
      best_consensus (ls_engine (run_states cfg target_opt max_opt r1 c1 attempts ! i))
      \<le> best_consensus (ls_engine (run_states cfg target_opt max_opt r1 c1 attempts ! j)))
   \<and> (consensus \<le> best_consensus e \<longrightarrow>
        update_best_result e r consensus it = Inr (e, False))
   \<and> (consensus \<le> best_consensus (ls_engine s) \<longrightarrow>
        best_result (ls_engine (iteration_step cfg target mx (Debated kind r consensus) it s))
          = best_result (ls_engine s)
        \<and> best_consensus (ls_engine (iteration_step cfg target mx (Debated kind r consensus) it s))
          = best_consensus (ls_engine s)
        \<and> best_iteration (ls_engine (iteration_step cfg target mx (Debated kind r consensus) it s))
          = best_iteration (ls_engine s))
   \<and> (\<exists>res. run_iterative_debate cfg target_opt max_opt r1 c1 attempts = Inr res
        \<and> res_best_consensus res
            = best_consensus (ls_engine (last (run_states cfg target_opt max_opt r1 c1 attempts)))
        \<and> res_best_result res
            = best_result (ls_engine (last (run_states cfg target_opt max_opt r1 c1 attempts)))
        \<and> res_best_iteration res
            = best_iteration (ls_engine (last (run_states cfg target_opt max_opt r1 c1 attempts))))"
proof -
  let ?tr = "run_states cfg target_opt max_opt r1 c1 attempts"
  have mono: "best_consensus (ls_engine (?tr ! i)) \<le> best_consensus (ls_engine (?tr ! j))"
    if "i < j" "j < length ?tr"
    using run_states_sorted[of cfg target_opt max_opt r1 c1 attempts] that
    by (simp add: sorted_wrt_iff_nth_less)
  have "last ?tr \<in> set ?tr"
    using run_states_nonempty by (rule last_in_set)
  then have "healthy (last ?tr)"
    by (rule run_states_healthy)
  then have "ls_raised (last ?tr) = None"
    by (simp add: healthy_def)
  then have res: "\<exists>res. run_iterative_debate cfg target_opt max_opt r1 c1 attempts = Inr res
        \<and> res_best_consensus res = best_consensus (ls_engine (last ?tr))
        \<and> res_best_result res = best_result (ls_engine (last ?tr))
        \<and> res_best_iteration res = best_iteration (ls_engine (last ?tr))"
    by (simp add: run_iterative_debate_def Let_def)
  from mono res update_best_result_not_better[of consensus e r it]
    iteration_step_keeps_best[of consensus s cfg target mx kind r it]
  show ?thesis
    by blast
qed

theorem best_consensus_never_decreases_witness:
  "(0 :: nat) < 2
   \<and> 2 < length (run_states demo_cfg (Some 85) (Some 3) ''first'' 70 demo_attempts)
   \<and> best_consensus (ls_engine
        (run_states demo_cfg (Some 85) (Some 3) ''first'' 70 demo_attempts ! 0)) = 70
   \<and> best_consensus (ls_engine
        (run_states demo_cfg (Some 85) (Some 3) ''first'' 70 demo_attempts ! 2)) = 88
   \<and> best_consensus (ls_engine
        (run_states demo_cfg (Some 85) (Some 3) ''first'' 70 demo_attempts ! 0))
     \<le> best_consensus (ls_engine
        (run_states demo_cfg (Some 85) (Some 3) ''first'' 70 demo_attempts ! 2))
   \<and> (60 :: int) \<le> best_consensus (ls_engine
        (run_states demo_cfg (Some 85) (Some 3) ''first'' 70 demo_attempts ! 0))
   \<and> update_best_result
        (ls_engine (run_states demo_cfg (Some 85) (Some 3) ''first'' 70 demo_attempts ! 0))
        ''second'' 60 2
     = Inr (ls_engine (run_states demo_cfg (Some 85) (Some 3) ''first'' 70 demo_attempts ! 0),
            False)"
proof -
  let ?tr = "run_states demo_cfg (Some 85) (Some 3) ''first'' 70 demo_attempts"
  have len: "length ?tr = 3"
    using arg_cong[OF demo_run, of length] by simp
  have b0: "best_consensus (ls_engine (?tr ! 0)) = 70"
    and b2: "best_consensus (ls_engine (?tr ! 2)) = 88"
    using arg_cong[OF demo_run, of "\<lambda>xs. fst (xs ! 0)"]
      arg_cong[OF demo_run, of "\<lambda>xs. fst (xs ! 2)"] len
    by simp_all
  from best_consensus_never_decreases
         [of 0 2 demo_cfg "Some 85" "Some 3" "''first''" 70 demo_attempts
             60 "ls_engine (?tr ! 0)" "''second''" 2]
    len b0 b2
  show ?thesis
    by simp
qed

subsection \<open>Plan reviser\<close>







lemma plan_200_lines:
  "length (splitlines plan_200) = 200" "length (splitlines plan_200_revised) = 200"
  "100 \<le> length plan_200_revised" "plan_200_revised \<noteq> plan_200"
  by code_simp+

lemma plan_200_popular: "popular (splitlines plan_200_revised) = [''x'']"
  by code_simp

lemma plan_200_matching:
  "matching_size [''x''] (splitlines plan_200) (splitlines plan_200_revised) = 0"
  by code_simp

text \<open>
  With the lines \<open>x\<close> out of the index and no other line in common, nothing matches:
  the ratio is 0 and the revision is rejected as a rewrite.
\<close>

lemma plan_200_rejected:
  "ratio (splitlines plan_200) (splitlines plan_200_revised) = 0"
  "validate_revision plan_200 plan_200_revised
   = (False, ''Plan appears to be rewritten, not revised'')"
proof -
  show r: "ratio (splitlines plan_200) (splitlines plan_200_revised) = 0"
    by (simp add: ratio_def plan_200_lines plan_200_popular plan_200_matching)
  have "calculate_change_percentage plan_200 plan_200_revised = 100"
    by (simp add: calculate_change_percentage_def Let_def r)
  moreover have "plan_200_revised \<noteq> []"
    using plan_200_lines(3) by auto
  ultimately show "validate_revision plan_200 plan_200_revised
      = (False, ''Plan appears to be rewritten, not revised'')"
    using plan_200_lines by (simp add: validate_revision_def Let_def)
qed






subsection \<open>Further properties\<close>

lemma get_value_error: "get_value n c = Inl e \<Longrightarrow> e = ValueError"
  by (cases "(n, c)" rule: get_value.cases) (auto split: if_splits)

lemma compare_chain_error: "compare_chain l ps c = Inl e \<Longrightarrow> e = ValueError"
proof (induction ps arbitrary: l)
  case Nil
  then show ?case by simp
next
  case (Cons p ps)
  obtain op comparator where p: "p = (op, comparator)" by (cases p)
  from Cons.prems Cons.IH show ?case
    unfolding p
    by (auto split: option.splits sum.splits if_splits dest: get_value_error)
qed

lemma collect_error: "collect rs = Inl e \<Longrightarrow> Inl e \<in> set rs"
  by (induction rs rule: collect.induct) (auto split: sum.splits)

lemma eval_node_error: "eval_node n c = Inl e \<Longrightarrow> e = ValueError"
proof (induction n arbitrary: e)
  case (Compare left ops comparators)
  from Compare.prems show ?case
    by (auto split: sum.splits dest: get_value_error compare_chain_error)
next
  case (BoolOp op vals)
  from BoolOp.prems have "collect (map (\<lambda>v. eval_node v c) vals) = Inl e"
    by (auto split: sum.splits)
  from collect_error[OF this] obtain v where "v \<in> set vals" "eval_node v c = Inl e"
    by auto
  with BoolOp.IH show ?case by blast
qed simp_all

text \<open>
  The evaluator of the learned rules raises nothing but \<open>ValueError\<close> on a parsed
  tree, so \<open>safe_evaluate_condition\<close> returns a boolean whenever \<open>ast.parse\<close> returns
  a tree or raises one of the four exceptions the function catches.
\<close>

theorem safe_evaluate_condition_returns_bool:
  assumes "case ast_parse condition of
             Inl e \<Rightarrow> e \<in> {SyntaxError, ValueError, KeyError, TypeError}
           | Inr tree \<Rightarrow> True"
  shows "\<exists>b. safe_evaluate_condition ast_parse condition consensus = Inr b"
proof (cases "ast_parse condition")
  case (Inl e)
  with assms show ?thesis
    by (auto simp: safe_evaluate_condition_def)
next
  case (Inr tree)
  then show ?thesis
    by (cases "eval_node tree consensus")
       (auto simp: safe_evaluate_condition_def dest: eval_node_error)
qed

theorem safe_evaluate_condition_returns_bool_witness:
  "(case ast_parse_table ''70 <= consensus < 85'' of
      Inl e \<Rightarrow> e \<in> {SyntaxError, ValueError, KeyError, TypeError}
    | Inr tree \<Rightarrow> True)
   \<and> (\<exists>b. safe_evaluate_condition ast_parse_table ''70 <= consensus < 85'' 72 = Inr b)
   \<and> safe_evaluate_condition ast_parse_table ''70 <= consensus < 85'' 72 = Inr True"
proof -
  have h: "case ast_parse_table ''70 <= consensus < 85'' of
      Inl e \<Rightarrow> e \<in> {SyntaxError, ValueError, KeyError, TypeError}
    | Inr tree \<Rightarrow> True"
    by (simp add: ast_parse_table_def)
  have v: "safe_evaluate_condition ast_parse_table ''70 <= consensus < 85'' 72 = Inr True"
    by (simp add: safe_evaluate_condition_def ast_parse_table_def SAFE_COMPARE_OPS_def)
  from safe_evaluate_condition_returns_bool
         [of ast_parse_table "''70 <= consensus < 85''" 72, OF h] h v
  show ?thesis
    by blast
qed

text \<open>
  The sequence counter: a call of \<open>get_next_sequence\<close> that gets the lock returns one
  more than the call before it, whatever the counter file held.
\<close>

theorem get_next_sequence_increases:
  assumes "get_next_sequence d True = Inr (d', n)"
    and "get_next_sequence d' True = Inr (d'', m)"
  shows "m = n + 1"
  using assms by (auto simp: get_next_sequence_def Let_def)

theorem get_next_sequence_increases_witness:
  "get_next_sequence (new_session ''s'' ''t0'') True
     = Inr ((new_session ''s'' ''t0'')\<lparr>sequence_file := Some 1\<rparr>, 1)
   \<and> get_next_sequence ((new_session ''s'' ''t0'')\<lparr>sequence_file := Some 1\<rparr>) True
     = Inr ((new_session ''s'' ''t0'')\<lparr>sequence_file := Some 2\<rparr>, 2)
   \<and> (2 :: int) = 1 + 1"
proof -
  have a: "get_next_sequence (new_session ''s'' ''t0'') True
     = Inr ((new_session ''s'' ''t0'')\<lparr>sequence_file := Some 1\<rparr>, 1)"
    by (simp add: get_next_sequence_def new_session_def)
  have b: "get_next_sequence ((new_session ''s'' ''t0'')\<lparr>sequence_file := Some 1\<rparr>) True
     = Inr ((new_session ''s'' ''t0'')\<lparr>sequence_file := Some 2\<rparr>, 2)"
    by (simp add: get_next_sequence_def new_session_def)
  from get_next_sequence_increases[OF a b] a b
  show ?thesis
    by simp
qed

end
